theory Spec2Isabelle
  imports Complex_Main
begin

section \<open>Python values used by parser.py\<close>

text \<open>
  Strings are lists of \<^typ>\<open>char\<close>, read as code points below 256. The exceptions are the
  ones the statements of \<open>parser.py\<close> and the library calls it makes can raise.
\<close>

datatype py_exn =
    ValueError
  | KeyError
  | IndexError
  | OverflowError
  | PermissionError
  | FileNotFoundError
  | FileExistsError
  | OtherOSError
  | UnicodeDecodeError
  | ExpatError

text \<open>\<open>except (PermissionError, OSError)\<close>: the two named classes are OSError and a subclass.\<close>

definition is_OSError :: "py_exn \<Rightarrow> bool" where
  "is_OSError e = (e = PermissionError \<or> e = FileNotFoundError \<or> e = FileExistsError
                   \<or> e = OtherOSError)"

subsection \<open>str methods\<close>

text \<open>\<open>str.isspace\<close> on one character, for code points below 256.\<close>

definition py_isspace :: "char \<Rightarrow> bool" where
  "py_isspace c = ((of_char c :: nat) \<in> set [9, 10, 11, 12, 13, 28, 29, 30, 31, 32, 133, 160])"

definition is_digit :: "char \<Rightarrow> bool" where
  "is_digit c = (48 \<le> (of_char c :: nat) \<and> (of_char c :: nat) \<le> 57)"

definition digit_val :: "char \<Rightarrow> nat" where
  "digit_val c = of_char c - 48"

text \<open>\<open>int(s)\<close> on a string of decimal digits.\<close>

definition digits_val :: "string \<Rightarrow> nat" where
  "digits_val s = foldl (\<lambda>n c. 10 * n + digit_val c) 0 s"

text \<open>\<open>s.strip()\<close>\<close>

definition py_strip :: "string \<Rightarrow> string" where
  "py_strip s = rev (dropWhile py_isspace (rev (dropWhile py_isspace s)))"

text \<open>\<open>s.split()\<close>: the maximal runs of characters that are not whitespace, in order.
  \<open>cur\<close> is the run being read, reversed.\<close>

fun split_acc :: "string \<Rightarrow> string \<Rightarrow> string list" where
  "split_acc cur [] = (if cur = [] then [] else [rev cur])"
| "split_acc cur (c # cs) =
     (if py_isspace c
      then (if cur = [] then split_acc [] cs else rev cur # split_acc [] cs)
      else split_acc (c # cur) cs)"

definition py_split :: "string \<Rightarrow> string list" where
  "py_split s = split_acc [] s"

text \<open>\<open>s.replace(c, r)\<close> for a one-character \<open>c\<close>.\<close>

definition py_replace :: "char \<Rightarrow> string \<Rightarrow> string \<Rightarrow> string" where
  "py_replace c r s = concat (map (\<lambda>x. if x = c then r else [x]) s)"

text \<open>\<open>xs[0]\<close> and \<open>xs[-1]\<close>: IndexError on the empty list.\<close>

definition index_first :: "'a list \<Rightarrow> py_exn + 'a" where
  "index_first xs = (case xs of [] \<Rightarrow> Inl IndexError | x # _ \<Rightarrow> Inr x)"

definition index_last :: "'a list \<Rightarrow> py_exn + 'a" where
  "index_last xs = (if xs = [] then Inl IndexError else Inr (last xs))"

text \<open>\<open>sub in s\<close> on strings.\<close>

fun starts_with :: "string \<Rightarrow> string \<Rightarrow> bool" where
  "starts_with [] s = True"
| "starts_with (p # ps) [] = False"
| "starts_with (p # ps) (c # cs) = (p = c \<and> starts_with ps cs)"

fun py_in :: "string \<Rightarrow> string \<Rightarrow> bool" where
  "py_in sub [] = (sub = [])"
| "py_in sub (c # cs) = (starts_with sub (c # cs) \<or> py_in sub cs)"

text \<open>\<open>d.get(k, default)\<close>\<close>

definition dict_get :: "(string \<rightharpoonup> string) \<Rightarrow> string \<Rightarrow> string \<Rightarrow> string" where
  "dict_get d k dflt = (case d k of None \<Rightarrow> dflt | Some v \<Rightarrow> v)"

section \<open>The parsed HTML document\<close>

text \<open>
  \<open>BeautifulSoup(html_content, 'html.parser')\<close> returns a tree of tags and strings. The
  tree is the type \<open>html\<close> of the model: \<open>Text\<close> is a string that \<open>.text\<close> includes, \<open>Tag\<close> a
  tag with its name as the parser gives it (lower case) and its children. The parser
  itself is a parameter of \<open>html_to_xml\<close> below.
\<close>

datatype html = Text string | Tag string "html list"

text \<open>All nodes below a node, in document order (what \<open>find_all\<close> walks).\<close>

fun descendants :: "html \<Rightarrow> html list" where
  "descendants (Text s) = []"
| "descendants (Tag n cs) = concat (map (\<lambda>c. c # descendants c) cs)"

definition is_tag :: "string \<Rightarrow> html \<Rightarrow> bool" where
  "is_tag name x = (case x of Text _ \<Rightarrow> False | Tag n _ \<Rightarrow> n = name)"

definition find_all :: "string \<Rightarrow> html \<Rightarrow> html list" where
  "find_all name node = filter (is_tag name) (descendants node)"

text \<open>\<open>node.text\<close>: the strings below the node, concatenated.\<close>

fun get_text :: "html \<Rightarrow> string" where
  "get_text (Text s) = s"
| "get_text (Tag n cs) = concat (map get_text cs)"

subsection \<open>html_to_xml, lines 73-80: the rows into the dictionary\<close>

type_synonym raw_fields = "string \<rightharpoonup> string"

definition row_header :: "html list \<Rightarrow> string" where
  "row_header cells = py_replace CHR '':'' [] (py_strip (get_text (cells ! 0)))"

definition row_value :: "html list \<Rightarrow> string" where
  "row_value cells = py_strip (get_text (cells ! 1))"

definition extract_row :: "raw_fields \<Rightarrow> html \<Rightarrow> raw_fields" where
  "extract_row data row =
     (let cells = find_all ''td'' row
      in if length cells = 2 then data(row_header cells \<mapsto> row_value cells) else data)"

definition extract_fields :: "html \<Rightarrow> raw_fields" where
  "extract_fields soup = foldl extract_row Map.empty (find_all ''tr'' soup)"

section \<open>Library functions of the conversion\<close>

subsection \<open>float(s)\<close>

text \<open>
  A Python float is an IEEE binary64 value: a finite one is the rational it denotes
  (the sign of zero is not kept: nothing in \<open>parser.py\<close> can observe it).
\<close>

datatype pyfloat = Finite rat | PosInf | NegInf | NaN

fun bit_length :: "nat \<Rightarrow> nat" where
  "bit_length n = (if n = 0 then 0 else Suc (bit_length (n div 2)))"

declare bit_length.simps [simp del]

definition pow2 :: "int \<Rightarrow> rat" where
  "pow2 e = (if 0 \<le> e then 2 ^ nat e else 1 / 2 ^ nat (- e))"

text \<open>For \<open>q > 0\<close>: the \<open>e\<close> with \<open>2 ^ e \<le> q < 2 ^ (e + 1)\<close>.\<close>

definition floor_log2 :: "rat \<Rightarrow> int" where
  "floor_log2 q =
     (let a = fst (quotient_of q); b = snd (quotient_of q);
          e0 = int (bit_length (nat a)) - int (bit_length (nat b))
      in if pow2 e0 \<le> q then e0 else e0 - 1)"

definition round_half_even :: "rat \<Rightarrow> int" where
  "round_half_even q =
     (let f = \<lfloor>q\<rfloor>; r = q - of_int f
      in if r < 1 / 2 then f else if 1 / 2 < r then f + 1 else if even f then f else f + 1)"

text \<open>Rounding a rational to the nearest binary64 value (ties to even), with gradual
  underflow and overflow to infinity.\<close>

definition round_binary64 :: "rat \<Rightarrow> pyfloat" where
  "round_binary64 q =
     (if q = 0 then Finite 0
      else let a = \<bar>q\<bar>;
               p = max (floor_log2 a - 52) (- 1074);
               v = of_int (round_half_even (a / pow2 p)) * pow2 p
           in if pow2 1024 \<le> v then (if 0 < q then PosInf else NegInf)
              else Finite (if 0 < q then v else - v))"

text \<open>\<open>float\<close> strips ASCII whitespace and the whitespace above 127 (but not the
  separators 28 to 31).\<close>

definition float_space :: "char \<Rightarrow> bool" where
  "float_space c = ((of_char c :: nat) \<in> set [9, 10, 11, 12, 13, 32, 133, 160])"

definition float_strip :: "string \<Rightarrow> string" where
  "float_strip s = rev (dropWhile float_space (rev (dropWhile float_space s)))"

text \<open>An underscore is accepted only between two digits, and is then dropped.\<close>

fun remove_underscores :: "char \<Rightarrow> string \<Rightarrow> string option" where
  "remove_underscores prev [] = Some []"
| "remove_underscores prev (c # cs) =
     (if c = CHR ''_''
      then (if is_digit prev \<and> cs \<noteq> [] \<and> is_digit (hd cs) then remove_underscores c cs else None)
      else map_option ((#) c) (remove_underscores c cs))"

definition to_lower :: "char \<Rightarrow> char" where
  "to_lower c = (if 65 \<le> (of_char c :: nat) \<and> (of_char c :: nat) \<le> 90
                 then char_of ((of_char c :: nat) + 32) else c)"

text \<open>The sign, and the rest.\<close>

definition take_sign :: "string \<Rightarrow> bool \<times> string" where
  "take_sign s =
     (case s of
        [] \<Rightarrow> (False, [])
      | c # cs \<Rightarrow> if c = CHR ''-'' then (True, cs) else if c = CHR ''+'' then (False, cs) else (False, s))"

text \<open>The exponent part: empty, or \<open>e\<close>, an optional sign and at least one digit.\<close>

definition float_exponent :: "string \<Rightarrow> int option" where
  "float_exponent s =
     (case s of
        [] \<Rightarrow> Some 0
      | c # cs \<Rightarrow>
          if to_lower c = CHR ''e''
          then (let (neg, ds) = take_sign cs
                in if ds \<noteq> [] \<and> list_all is_digit ds
                   then Some (if neg then - int (digits_val ds) else int (digits_val ds))
                   else None)
          else None)"

text \<open>The decimal literal without its sign: digits, an optional point with digits, an
  optional exponent; at least one digit before the exponent.\<close>

definition float_decimal :: "string \<Rightarrow> rat option" where
  "float_decimal s =
     (let ip = takeWhile is_digit s; r1 = dropWhile is_digit s;
          fp = (case r1 of [] \<Rightarrow> [] | c # cs \<Rightarrow> if c = CHR ''.'' then takeWhile is_digit cs else []);
          r2 = (case r1 of [] \<Rightarrow> [] | c # cs \<Rightarrow> if c = CHR ''.'' then dropWhile is_digit cs else r1)
      in if ip = [] \<and> fp = [] then None
         else (case float_exponent r2 of
                 None \<Rightarrow> None
               | Some e \<Rightarrow>
                   let m = of_nat (digits_val (ip @ fp)); x = e - int (length fp)
                   in Some (if 0 \<le> x then m * 10 ^ nat x else m / 10 ^ nat (- x))))"

definition py_float :: "string \<Rightarrow> py_exn + pyfloat" where
  "py_float s0 =
     (case remove_underscores (CHR 0x00) (float_strip s0) of
        None \<Rightarrow> Inl ValueError
      | Some s \<Rightarrow>
          let (neg, body) = take_sign s; low = map to_lower body
          in if low = ''inf'' \<or> low = ''infinity'' then Inr (if neg then NegInf else PosInf)
             else if low = ''nan'' then Inr NaN
             else (case float_decimal body of
                     None \<Rightarrow> Inl ValueError
                   | Some q \<Rightarrow> Inr (round_binary64 (if neg then - q else q))))"

subsection \<open>datetime and timedelta\<close>

record datetime =
  year :: int
  month :: int
  day :: int
  hour :: int
  minute :: int
  second :: int
  microsecond :: int

record timedelta =
  td_days :: int
  td_seconds :: int
  td_microseconds :: int

definition is_leap :: "int \<Rightarrow> bool" where
  "is_leap y = (y mod 4 = 0 \<and> (y mod 100 \<noteq> 0 \<or> y mod 400 = 0))"

definition days_in_month_table :: "int list" where
  "days_in_month_table = [0, 31, 28, 31, 30, 31, 30, 31, 31, 30, 31, 30, 31]"

definition days_before_month_table :: "int list" where
  "days_before_month_table = [0, 0, 31, 59, 90, 120, 151, 181, 212, 243, 273, 304, 334]"

definition days_in_month :: "int \<Rightarrow> int \<Rightarrow> int" where
  "days_in_month y m = (if m = 2 \<and> is_leap y then 29 else days_in_month_table ! nat m)"

definition days_before_month :: "int \<Rightarrow> int \<Rightarrow> int" where
  "days_before_month y m =
     days_before_month_table ! nat m + (if 2 < m \<and> is_leap y then 1 else 0)"

definition days_before_year :: "int \<Rightarrow> int" where
  "days_before_year y = (y - 1) * 365 + (y - 1) div 4 - (y - 1) div 100 + (y - 1) div 400"

definition ymd_to_ord :: "int \<Rightarrow> int \<Rightarrow> int \<Rightarrow> int" where
  "ymd_to_ord y m d = days_before_year y + days_before_month y m + d"

definition MAXORDINAL :: int where
  "MAXORDINAL = 3652059"

text \<open>The constructor's range checks: ValueError outside them.\<close>

definition new_datetime :: "int \<Rightarrow> int \<Rightarrow> int \<Rightarrow> int \<Rightarrow> int \<Rightarrow> int \<Rightarrow> int \<Rightarrow> py_exn + datetime" where
  "new_datetime y mo d h mi s us =
     (if 1 \<le> y \<and> y \<le> 9999 \<and> 1 \<le> mo \<and> mo \<le> 12 \<and> 1 \<le> d \<and> d \<le> days_in_month y mo
         \<and> 0 \<le> h \<and> h \<le> 23 \<and> 0 \<le> mi \<and> mi \<le> 59 \<and> 0 \<le> s \<and> s \<le> 59
         \<and> 0 \<le> us \<and> us \<le> 999999
      then Inr \<lparr>year = y, month = mo, day = d, hour = h, minute = mi, second = s, microsecond = us\<rparr>
      else Inl ValueError)"

text \<open>\<open>ord_to_ymd\<close>: the date of a proleptic Gregorian ordinal (1 is 0001-01-01).\<close>

definition ord_to_ymd :: "int \<Rightarrow> int \<times> int \<times> int" where
  "ord_to_ymd ordinal =
     (let o1 = ordinal - 1;
          n400 = o1 div 146097; r400 = o1 mod 146097;
          n100 = r400 div 36524; r100 = r400 mod 36524;
          n4 = r100 div 1461; r4 = r100 mod 1461;
          n1 = r4 div 365; n = r4 mod 365;
          y = n400 * 400 + 1 + n100 * 100 + n4 * 4 + n1
      in if n1 = 4 \<or> n100 = 4 then (y - 1, 12, 31)
         else let leapyear = (n1 = 3 \<and> (n4 \<noteq> 24 \<or> n100 = 3));
                  m0 = (n + 50) div 32;
                  p0 = days_before_month_table ! nat m0 + (if 2 < m0 \<and> leapyear then 1 else 0);
                  m = (if n < p0 then m0 - 1 else m0);
                  preceding = (if n < p0 then p0 - days_in_month y (m0 - 1) else p0)
              in (y, m, n - preceding + 1))"

text \<open>\<open>normalize_y_m_d\<close>: the day may be out of its month; OverflowError when the date
  leaves the years 1 to 9999.\<close>

definition normalize_y_m_d :: "int \<Rightarrow> int \<Rightarrow> int \<Rightarrow> py_exn + int \<times> int \<times> int" where
  "normalize_y_m_d y m d =
     (let dim = days_in_month y m;
          check = (\<lambda>(y', m', d'). if 1 \<le> y' \<and> y' \<le> 9999 then Inr (y', m', d') else Inl OverflowError)
      in if d < 1 \<or> dim < d
         then (if d = 0
               then (if 0 < m - 1 then check (y, m - 1, days_in_month y (m - 1))
                     else check (y - 1, 12, 31))
               else if d = dim + 1
               then (if 12 < m + 1 then check (y + 1, 1, 1) else check (y, m + 1, 1))
               else let ordinal = ymd_to_ord y m 1 + d - 1
                    in if ordinal < 1 \<or> MAXORDINAL < ordinal then Inl OverflowError
                       else Inr (ord_to_ymd ordinal))
         else check (y, m, d))"

text \<open>\<open>timedelta(seconds=x)\<close> for a float \<open>x\<close>: the whole seconds are converted exactly,
  the fraction is multiplied by 1e6 in binary64 and rounded to a whole number of
  microseconds, ties to even. NaN is a ValueError; infinity and more than 999999999 days
  are an OverflowError.\<close>

definition trunc :: "rat \<Rightarrow> int" where
  "trunc q = (if 0 \<le> q then \<lfloor>q\<rfloor> else - \<lfloor>- q\<rfloor>)"

text \<open>C's \<open>round\<close>: to the nearest integer, halves away from zero.\<close>

definition c_round :: "rat \<Rightarrow> int" where
  "c_round q = (if 0 \<le> q then \<lfloor>q + 1 / 2\<rfloor> else - \<lfloor>- q + 1 / 2\<rfloor>)"

definition delta_of_microseconds :: "int \<Rightarrow> py_exn + timedelta" where
  "delta_of_microseconds us =
     (let s = us div 1000000; d = s div 86400
      in if d < - 999999999 \<or> 999999999 < d then Inl OverflowError
         else Inr \<lparr>td_days = d, td_seconds = s mod 86400, td_microseconds = us mod 1000000\<rparr>)"

definition timedelta_seconds :: "pyfloat \<Rightarrow> py_exn + timedelta" where
  "timedelta_seconds x =
     (case x of
        NaN \<Rightarrow> Inl ValueError
      | PosInf \<Rightarrow> Inl OverflowError
      | NegInf \<Rightarrow> Inl OverflowError
      | Finite q \<Rightarrow>
          let intpart = trunc q; fracpart = q - of_int intpart; x1 = intpart * 1000000
          in if fracpart = 0 then delta_of_microseconds x1
             else (case round_binary64 (1000000 * fracpart) of
                     Finite d \<Rightarrow>
                       let intpart2 = trunc d; leftover = d - of_int intpart2; x2 = x1 + intpart2;
                           odd = x2 mod 2;
                           whole =
                             (if leftover = 0 then 0
                              else if \<bar>of_int (c_round leftover) - leftover\<bar> = 1 / 2
                              then 2 * c_round ((leftover + of_int odd) / 2) - odd
                              else c_round leftover)
                       in delta_of_microseconds (x2 + whole)
                   | _ \<Rightarrow> Inl OverflowError))"

text \<open>\<open>start + delta\<close>: the fields are added and the carries normalized upwards.\<close>

definition datetime_add :: "datetime \<Rightarrow> timedelta \<Rightarrow> py_exn + datetime" where
  "datetime_add t delta =
     (let us = microsecond t + td_microseconds delta;
          s = second t + td_seconds delta + us div 1000000;
          mi = minute t + s div 60;
          h = hour t + mi div 60;
          d = day t + td_days delta + h div 24
      in case normalize_y_m_d (year t) (month t) d of
           Inl e \<Rightarrow> Inl e
         | Inr (y', m', d') \<Rightarrow>
             Inr \<lparr>year = y', month = m', day = d', hour = h mod 24, minute = mi mod 60,
                  second = s mod 60, microsecond = us mod 1000000\<rparr>)"

subsection \<open>datetime.strptime(s, '%Y %H:%M:%S')\<close>

text \<open>
  The format is compiled to the regular expression
  \<open>(\d\d\d\d)\s+(2[0-3]|[0-1]\d|\d):([0-5]\d|\d):(6[0-1]|[0-5]\d|\d)\<close>, matched at the start
  of the string, and the match must reach the end of the string. Each piece below returns
  its matches in the order the backtracking matcher tries them.
\<close>

definition char_between :: "nat \<Rightarrow> nat \<Rightarrow> char \<Rightarrow> bool" where
  "char_between lo hi c = (48 + lo \<le> (of_char c :: nat) \<and> (of_char c :: nat) \<le> 48 + hi)"

definition two_chars :: "(char \<Rightarrow> bool) \<Rightarrow> (char \<Rightarrow> bool) \<Rightarrow> string \<Rightarrow> (int \<times> string) list" where
  "two_chars p1 p2 s =
     (case s of
        a # b # r \<Rightarrow> if p1 a \<and> p2 b then [(int (digits_val [a, b]), r)] else []
      | _ \<Rightarrow> [])"

definition one_digit :: "string \<Rightarrow> (int \<times> string) list" where
  "one_digit s = (case s of a # r \<Rightarrow> if is_digit a then [(int (digit_val a), r)] else [] | [] \<Rightarrow> [])"

definition match_Y :: "string \<Rightarrow> (int \<times> string) list" where
  "match_Y s = (if 4 \<le> length s \<and> list_all is_digit (take 4 s)
                then [(int (digits_val (take 4 s)), drop 4 s)] else [])"

definition match_spaces :: "string \<Rightarrow> string list" where
  "match_spaces s = map (\<lambda>k. drop k s) (rev [1 ..< Suc (length (takeWhile py_isspace s))])"

definition match_H :: "string \<Rightarrow> (int \<times> string) list" where
  "match_H s = two_chars (char_between 2 2) (char_between 0 3) s
             @ two_chars (char_between 0 1) is_digit s @ one_digit s"

definition match_M :: "string \<Rightarrow> (int \<times> string) list" where
  "match_M s = two_chars (char_between 0 5) is_digit s @ one_digit s"

definition match_S :: "string \<Rightarrow> (int \<times> string) list" where
  "match_S s = two_chars (char_between 6 6) (char_between 0 1) s
             @ two_chars (char_between 0 5) is_digit s @ one_digit s"

definition match_colon :: "string \<Rightarrow> string list" where
  "match_colon s = (case s of a # r \<Rightarrow> if a = CHR '':'' then [r] else [] | [] \<Rightarrow> [])"

definition regex_matches :: "string \<Rightarrow> (int \<times> int \<times> int \<times> int \<times> string) list" where
  "regex_matches s =
     [(y, h, m, sec, r7).
        (y, r1) \<leftarrow> match_Y s, r2 \<leftarrow> match_spaces r1, (h, r3) \<leftarrow> match_H r2,
        r4 \<leftarrow> match_colon r3, (m, r5) \<leftarrow> match_M r4, r6 \<leftarrow> match_colon r5,
        (sec, r7) \<leftarrow> match_S r6]"

text \<open>No match, unconverted data after the match and a field outside the constructor's
  range are a ValueError; month and day default to 1.\<close>

definition strptime :: "string \<Rightarrow> py_exn + datetime" where
  "strptime s =
     (case regex_matches s of
        [] \<Rightarrow> Inl ValueError
      | (y, h, m, sec, rest) # _ \<Rightarrow>
          if rest \<noteq> [] then Inl ValueError else new_datetime y 1 1 h m sec 0)"

subsection \<open>datetime.isoformat()\<close>

definition digit_char :: "nat \<Rightarrow> char" where
  "digit_char n = char_of (48 + n)"

fun show_nat :: "nat \<Rightarrow> string" where
  "show_nat n = (if n < 10 then [digit_char n] else show_nat (n div 10) @ [digit_char (n mod 10)])"

declare show_nat.simps [simp del]

text \<open>\<open>"%0wd" % n\<close> for \<open>n \<ge> 0\<close>\<close>

definition zpad :: "nat \<Rightarrow> int \<Rightarrow> string" where
  "zpad w n = replicate (w - length (show_nat (nat n))) CHR ''0'' @ show_nat (nat n)"

definition isoformat :: "datetime \<Rightarrow> string" where
  "isoformat t =
     zpad 4 (year t) @ ''-'' @ zpad 2 (month t) @ ''-'' @ zpad 2 (day t) @ ''T''
     @ zpad 2 (hour t) @ '':'' @ zpad 2 (minute t) @ '':'' @ zpad 2 (second t)
     @ (if microsecond t = 0 then [] else ''.'' @ zpad 6 (microsecond t))"

section \<open>html_to_xml\<close>

text \<open>What \<open>logging.error\<close> and \<open>logging.info\<close> are called with: one constructor for each
  call of \<open>parser.py\<close>, with the paths and names of its message (the text of a caught
  exception is left out).\<close>

datatype log_event =
    MissingField string
  | ParseError
  | EmptyFile string
  | ReadError string
  | CreatedDirectory string
  | CreateDirectoryFailed string
  | AlreadyExists string
  | XmlWritten string
  | WriteDenied string
  | CreatedArchiveDirectory string
  | CreateArchiveDirectoryFailed string
  | OverwritingArchiveFile string
  | Archived string string
  | ArchiveFailed string

text \<open>The local variables of \<open>html_to_xml\<close> after line 102.\<close>

record report =
  station_id :: string
  serial_number :: string
  sequence_name :: string
  execution_time :: pyfloat
  status :: string
  start_time :: datetime
  end_time :: datetime

definition required_fields :: "string list" where
  "required_fields =
     [''Station ID'', ''Serial Number'', ''Sequence Name'', ''UUT Result'', ''Date'', ''Time'']"

text \<open>Lines 92-95: the first field of the list that is not a key, if any.\<close>

fun first_missing :: "raw_fields \<Rightarrow> string list \<Rightarrow> string option" where
  "first_missing data [] = None"
| "first_missing data (field # rest) =
     (if data field = None then Some field else first_missing data rest)"

text \<open>Line 89.\<close>

definition execution_time_token :: "raw_fields \<Rightarrow> py_exn + string" where
  "execution_time_token data = index_first (py_split (dict_get data ''Execution Time'' ''0 seconds''))"

text \<open>Line 101, the argument of \<open>strptime\<close>: the f-string reads \<open>date_str.split()[-1]\<close>
  first.\<close>

definition composite_time :: "string \<Rightarrow> string \<Rightarrow> py_exn + string" where
  "composite_time date_str time_str =
     (case index_last (py_split date_str) of
        Inl e \<Rightarrow> Inl e
      | Inr tok \<Rightarrow> Inr (tok @ '' '' @ py_replace CHR ''.'' '':'' time_str))"

text \<open>Lines 99-102, the body of the \<open>try\<close>.\<close>

definition parse_block :: "string \<Rightarrow> string \<Rightarrow> string \<Rightarrow> string \<Rightarrow> py_exn + pyfloat \<times> string \<times> datetime \<times> datetime" where
  "parse_block execution_time_str uut_result date_str time_str =
     (case py_float execution_time_str of
        Inl e \<Rightarrow> Inl e
      | Inr exec_time \<Rightarrow>
          let st = (if py_in ''Passed'' uut_result then ''PASS'' else ''FAIL'')
          in (case composite_time date_str time_str of
                Inl e \<Rightarrow> Inl e
              | Inr composite \<Rightarrow>
                  (case strptime composite of
                     Inl e \<Rightarrow> Inl e
                   | Inr start \<Rightarrow>
                       (case timedelta_seconds exec_time of
                          Inl e \<Rightarrow> Inl e
                        | Inr delta \<Rightarrow>
                            (case datetime_add start delta of
                               Inl e \<Rightarrow> Inl e
                             | Inr end' \<Rightarrow> Inr (exec_time, st, start, end'))))))"

text \<open>Lines 83-105. The result is the log, and the exception that leaves the function
  or what it has: \<open>None\<close> where the source returns None. \<open>except (ValueError,
  KeyError)\<close> catches those two only.\<close>

definition convert_fields :: "raw_fields \<Rightarrow> log_event list \<times> (py_exn + report option)" where
  "convert_fields data =
     (let station = dict_get data ''Station ID'' [];
          serial = dict_get data ''Serial Number'' [];
          sequence = dict_get data ''Sequence Name'' [];
          uut_result = dict_get data ''UUT Result'' [];
          date_str = dict_get data ''Date'' [];
          time_str = dict_get data ''Time'' []
      in case execution_time_token data of
           Inl e \<Rightarrow> ([], Inl e)
         | Inr execution_time_str \<Rightarrow>
             (case first_missing data required_fields of
                Some field \<Rightarrow> ([MissingField field], Inr None)
              | None \<Rightarrow>
                  (case parse_block execution_time_str uut_result date_str time_str of
                     Inl e \<Rightarrow>
                       if e = ValueError \<or> e = KeyError then ([ParseError], Inr None)
                       else ([], Inl e)
                   | Inr (exec_time, st, start, end') \<Rightarrow>
                       ([], Inr (Some \<lparr>station_id = station, serial_number = serial,
                                          sequence_name = sequence, execution_time = exec_time,
                                          status = st, start_time = start, end_time = end'\<rparr>)))))"

subsection \<open>Lines 108-125: the element tree\<close>

text \<open>An \<open>ET.Element\<close>: tag, attributes in insertion order, text (None when never set),
  children.\<close>

datatype xml = Element string "(string \<times> string) list" "string option" "xml list"

definition root_attributes :: "(string \<times> string) list" where
  "root_attributes =
     [(''xmlns:xsi'', ''http://www.w3.org/2001/XMLSchema-instance''),
      (''xmlns:xsd'', ''http://www.w3.org/2001/XMLSchema''),
      (''Version'', ''2.0''),
      (''TesterType'', ''KONE FCT''),
      (''Testerlocation'', ''en-US'')]"

definition SubElement :: "string \<Rightarrow> string \<Rightarrow> xml" where
  "SubElement tag txt = Element tag [] (Some txt) []"

definition build_xml :: "report \<Rightarrow> xml" where
  "build_xml r =
     Element ''UGSTesterCom'' root_attributes None
       [SubElement ''Barcode'' (serial_number r),
        SubElement ''TesterName'' (station_id r),
        SubElement ''StationName'' (station_id r),
        SubElement ''Station'' (station_id r),
        SubElement ''TestProgram'' (sequence_name r),
        SubElement ''Status'' (status r),
        SubElement ''StartTime'' (isoformat (start_time r)),
        SubElement ''EndTime'' (isoformat (end_time r)),
        Element ''TestSteps'' [] None []]"

subsection \<open>The parser and the serializers\<close>

text \<open>
  The HTML parser and the XML serializers are libraries that \<open>parser.py\<close> calls on whole
  documents; they are parameters of the model. \<open>minidom.parseString\<close> raises ExpatError
  on text that is not well-formed XML.
\<close>

record pylib =
  BeautifulSoup :: "string \<Rightarrow> html"
  ET_tostring :: "xml \<Rightarrow> string"
  minidom_parseString :: "string \<Rightarrow> py_exn + xml"
  toprettyxml :: "xml \<Rightarrow> string"

definition prettify_xml :: "pylib \<Rightarrow> xml \<Rightarrow> py_exn + string" where
  "prettify_xml lib element =
     (let rough_string = ET_tostring lib element
      in case minidom_parseString lib rough_string of
           Inl e \<Rightarrow> Inl e
         | Inr reparsed \<Rightarrow> Inr (toprettyxml lib reparsed))"

definition html_to_xml :: "pylib \<Rightarrow> string \<Rightarrow> log_event list \<times> (py_exn + string option)" where
  "html_to_xml lib html_content =
     (let soup = BeautifulSoup lib html_content;
          data = extract_fields soup
      in case convert_fields data of
           (lg, Inl e) \<Rightarrow> (lg, Inl e)
         | (lg, Inr None) \<Rightarrow> (lg, Inr None)
         | (lg, Inr (Some r)) \<Rightarrow>
             (case prettify_xml lib (build_xml r) of
                Inl e \<Rightarrow> (lg, Inl e)
              | Inr text' \<Rightarrow> (lg, Inr (Some text'))))"

section \<open>The file system and os.path\<close>

subsection \<open>os.path (posixpath)\<close>

text \<open>The functions of \<open>os.path\<close> as they are on POSIX, with the separator \<open>/\<close>.\<close>

definition basename :: "string \<Rightarrow> string" where
  "basename p = rev (takeWhile (\<lambda>c. c \<noteq> CHR ''/'') (rev p))"

definition rstrip_sep :: "string \<Rightarrow> string" where
  "rstrip_sep p = rev (dropWhile (\<lambda>c. c = CHR ''/'') (rev p))"

definition dirname :: "string \<Rightarrow> string" where
  "dirname p =
     (let head = take (length p - length (basename p)) p
      in if head \<noteq> [] \<and> (\<exists>c \<in> set head. c \<noteq> CHR ''/'') then rstrip_sep head else head)"

definition join :: "string \<Rightarrow> string \<Rightarrow> string" where
  "join a b =
     (if starts_with ''/'' b then b
      else if a = [] \<or> last a = CHR ''/'' then a @ b
      else a @ ''/'' @ b)"

text \<open>\<open>splitext\<close>: the extension starts at the last dot of the last component, unless only
  dots stand before it there.\<close>

definition splitext :: "string \<Rightarrow> string \<times> string" where
  "splitext p =
     (let b = basename p;
          ext = rev (takeWhile (\<lambda>c. c \<noteq> CHR ''.'') (rev b));
          stem = take (length b - length ext - 1) b;
          k = length p - length ext - 1
      in if CHR ''.'' \<in> set b \<and> (\<exists>c \<in> set stem. c \<noteq> CHR ''.'') then (take k p, drop k p)
         else (p, []))"

subsection \<open>The file system\<close>

text \<open>
  A path names a file with its text, a directory, or nothing. \<open>faults\<close> is the
  environment's part: the exception, if any, that a call on a path meets there
  (permissions, I/O, a file that is not UTF-8). For \<open>Makedirs\<close> the call
  \<open>os.makedirs(p)\<close> is refused as a whole, before it creates anything; for \<open>Mkdir\<close> the
  single \<open>os.mkdir(p)\<close> fails. \<open>logged\<close> holds the log calls, oldest first.
\<close>

datatype node = File string | Dir

datatype os_op = Makedirs | Mkdir | OpenRead | OpenWrite | Remove | Move

record world =
  fs :: "string \<Rightarrow> node option"
  faults :: "os_op \<Rightarrow> string \<Rightarrow> py_exn option"
  logged :: "log_event list"

definition logging :: "log_event \<Rightarrow> world \<Rightarrow> world" where
  "logging ev w = w\<lparr>logged := logged w @ [ev]\<rparr>"

definition exists :: "world \<Rightarrow> string \<Rightarrow> bool" where
  "exists w p = (fs w p \<noteq> None)"

definition isdir :: "world \<Rightarrow> string \<Rightarrow> bool" where
  "isdir w p = (fs w p = Some Dir)"

text \<open>The first lines of \<open>os.makedirs\<close>: \<open>path.split(name)\<close>, once more on the head when the
  name ends in a separator. \<open>path.split\<close> gives the \<open>dirname\<close> and the \<open>basename\<close>.\<close>

definition makedirs_split :: "string \<Rightarrow> string \<times> string" where
  "makedirs_split name =
     (if basename name = [] then (dirname (dirname name), basename (dirname name))
      else (dirname name, basename name))"

text \<open>\<open>os.mkdir(name)\<close>: the name must be free, and the directory it lies in (the current
  one for a name without a head) must be there.\<close>

definition mkdir :: "string \<Rightarrow> world \<Rightarrow> py_exn + world" where
  "mkdir name w =
     (case faults w Mkdir name of
        Some e \<Rightarrow> Inl e
      | None \<Rightarrow>
          if exists w name then Inl FileExistsError
          else (case (if fst (makedirs_split name) = [] then Some Dir
                      else fs w (fst (makedirs_split name))) of
                  None \<Rightarrow> Inl FileNotFoundError
                | Some (File _) \<Rightarrow> Inl OtherOSError
                | Some Dir \<Rightarrow> Inr (w\<lparr>fs := (fs w)(name \<mapsto> Dir)\<rparr>)))"

text \<open>The last lines of \<open>os.makedirs\<close> with \<open>exist_ok=True\<close>: an OSError of \<open>mkdir\<close> is
  dropped when the name is a directory. The result is the exception, if any, and the
  file system as the call leaves it.\<close>

definition mkdir_exist_ok :: "string \<Rightarrow> world \<Rightarrow> py_exn option \<times> world" where
  "mkdir_exist_ok name w =
     (case mkdir name w of
        Inl e \<Rightarrow> if is_OSError e \<and> isdir w name then (None, w) else (Some e, w)
      | Inr w' \<Rightarrow> (None, w'))"

lemma dirname_basename_length: "length (dirname p) + length (basename p) \<le> length p"
proof -
  define h where "h = take (length p - length (basename p)) p"
  have "length (rstrip_sep h) \<le> length h"
    using length_dropWhile_le [of "\<lambda>c. c = CHR ''/''" "rev h"] by (simp add: rstrip_sep_def)
  then have "length (dirname p) \<le> length h"
    by (simp add: dirname_def Let_def h_def [symmetric])
  moreover have "length (basename p) \<le> length p"
    using length_takeWhile_le [of "\<lambda>c. c \<noteq> CHR ''/''" "rev p"] by (simp add: basename_def)
  moreover have "length h = length p - length (basename p)"
    by (simp add: h_def)
  ultimately show ?thesis by linarith
qed

lemma makedirs_split_shorter:
  assumes "snd (makedirs_split name) \<noteq> []"
  shows "length (fst (makedirs_split name)) < length name"
proof (cases "basename name = []")
  case True
  then have e: "fst (makedirs_split name) = dirname (dirname name)"
    and "basename (dirname name) \<noteq> []"
    using assms by (simp_all add: makedirs_split_def)
  then have "0 < length (basename (dirname name))" by blast
  then show ?thesis
    unfolding e
    using dirname_basename_length [of name] dirname_basename_length [of "dirname name"]
    by linarith
next
  case False
  then have e: "fst (makedirs_split name) = dirname name"
    by (simp add: makedirs_split_def)
  have "0 < length (basename name)" using False by blast
  then show ?thesis
    unfolding e using dirname_basename_length [of name] by linarith
qed

text \<open>\<open>os.makedirs(name, exist_ok=True)\<close>: a missing head is made first, by the same
  function; a FileExistsError of that call is passed over; a name that ends in the
  current directory \<open>.\<close> is done when its head is.\<close>

function makedirs :: "string \<Rightarrow> world \<Rightarrow> py_exn option \<times> world" where
  "makedirs name w =
     (case faults w Makedirs name of
        Some e \<Rightarrow> (Some e, w)
      | None \<Rightarrow>
          if fst (makedirs_split name) \<noteq> [] \<and> snd (makedirs_split name) \<noteq> []
             \<and> \<not> exists w (fst (makedirs_split name))
          then (case makedirs (fst (makedirs_split name)) w of
                  (Some e, w1) \<Rightarrow>
                    if e = FileExistsError
                    then (if snd (makedirs_split name) = ''.'' then (None, w1)
                          else mkdir_exist_ok name w1)
                    else (Some e, w1)
                | (None, w1) \<Rightarrow>
                    if snd (makedirs_split name) = ''.'' then (None, w1)
                    else mkdir_exist_ok name w1)
          else mkdir_exist_ok name w)"
  by pat_completeness auto
termination
  by (relation "measure (\<lambda>(name, w). length name)") (auto simp: makedirs_split_shorter)

declare makedirs.simps [simp del]

text \<open>\<open>open(p, 'r', encoding='utf-8')\<close> and \<open>read()\<close>\<close>

definition open_read :: "string \<Rightarrow> world \<Rightarrow> py_exn + string" where
  "open_read p w =
     (case faults w OpenRead p of
        Some e \<Rightarrow> Inl e
      | None \<Rightarrow>
          (case fs w p of
             None \<Rightarrow> Inl FileNotFoundError
           | Some Dir \<Rightarrow> Inl OtherOSError
           | Some (File content) \<Rightarrow> Inr content))"

text \<open>\<open>open(p, 'w', encoding='utf-8')\<close> and \<open>write(content)\<close>\<close>

definition open_write :: "string \<Rightarrow> string \<Rightarrow> world \<Rightarrow> py_exn + world" where
  "open_write p content w =
     (case faults w OpenWrite p of
        Some e \<Rightarrow> Inl e
      | None \<Rightarrow>
          (case fs w p of
             Some Dir \<Rightarrow> Inl OtherOSError
           | _ \<Rightarrow> Inr (w\<lparr>fs := (fs w)(p \<mapsto> File content)\<rparr>)))"

text \<open>\<open>os.remove(p)\<close>\<close>

definition remove :: "string \<Rightarrow> world \<Rightarrow> py_exn + world" where
  "remove p w =
     (case faults w Remove p of
        Some e \<Rightarrow> Inl e
      | None \<Rightarrow>
          (case fs w p of
             None \<Rightarrow> Inl FileNotFoundError
           | Some Dir \<Rightarrow> Inl OtherOSError
           | Some (File _) \<Rightarrow> Inr (w\<lparr>fs := (fs w)(p := None)\<rparr>)))"

text \<open>\<open>shutil.move(src, dst)\<close>: into \<open>dst\<close> when it is a directory (shutil.Error, an
  OSError, when the name is taken there), onto \<open>dst\<close> otherwise.\<close>

definition move :: "string \<Rightarrow> string \<Rightarrow> world \<Rightarrow> py_exn + world" where
  "move src dst w =
     (case faults w Move src of
        Some e \<Rightarrow> Inl e
      | None \<Rightarrow>
          let real_dst = (if fs w dst = Some Dir then join dst (basename (rstrip_sep src)) else dst)
          in if fs w dst = Some Dir \<and> exists w real_dst then Inl OtherOSError
             else (case fs w src of
                     None \<Rightarrow> Inl FileNotFoundError
                   | Some n \<Rightarrow> Inr (w\<lparr>fs := (fs w)(src := None, real_dst \<mapsto> n)\<rparr>)))"

section \<open>read_html_file and main\<close>

datatype ExitCode =
    SUCCESS
  | CREATE_DIR_ERROR
  | READ_HTML_ERROR
  | PARSE_XML_ERROR
  | WRITE_XML_ERROR
  | ARCHIVE_ERROR

text \<open>The value of each member of the Enum. An exit code below is the member that \<open>main\<close>
  returns, with this value; the call \<open>exit(exit_code)\<close> of the script is not part of the
  model.\<close>

fun exit_value :: "ExitCode \<Rightarrow> int" where
  "exit_value SUCCESS = 0"
| "exit_value CREATE_DIR_ERROR = 1"
| "exit_value READ_HTML_ERROR = 2"
| "exit_value PARSE_XML_ERROR = 3"
| "exit_value WRITE_XML_ERROR = 4"
| "exit_value ARCHIVE_ERROR = 5"

definition dir_for_archiv :: string where
  "dir_for_archiv = ''arhiiv''"

text \<open>The parsed command line: \<open>-d1\<close> and \<open>-d2\<close> are required, \<open>-a\<close> is None when left
  out.\<close>

record args =
  dir1 :: string
  dir2 :: string
  archive :: "string option"

text \<open>How a call ends: with a value, or with an exception that nothing caught.\<close>

datatype 'a outcome = Returned 'a | Raised py_exn

text \<open>\<open>read_html_file\<close>: \<open>file_path\<close> is a string here, so the TypeError of line 39 has
  no branch. Only FileNotFoundError is caught.\<close>

definition read_html_file :: "string \<Rightarrow> world \<Rightarrow> string option outcome \<times> world" where
  "read_html_file file_path w =
     (case open_read file_path w of
        Inl e \<Rightarrow>
          if e = FileNotFoundError then (Returned None, logging (ReadError file_path) w)
          else (Raised e, w)
      | Inr text' \<Rightarrow>
          let content = py_strip text'
          in if content = [] then (Returned None, logging (EmptyFile file_path) w)
             else (Returned (Some content), w))"

text \<open>Line 212: \<open>args.archive or ...\<close> takes the default for None and for the empty
  string.\<close>

definition archive_dir_of :: "args \<Rightarrow> string" where
  "archive_dir_of a =
     (case archive a of
        Some d \<Rightarrow> if d \<noteq> [] then d else join (dirname (dirname (dir1 a))) dir_for_archiv
      | None \<Rightarrow> join (dirname (dirname (dir1 a))) dir_for_archiv)"

text \<open>Lines 222-234: \<open>except (PermissionError, FileNotFoundError)\<close>.\<close>

definition archive_caught :: "py_exn \<Rightarrow> bool" where
  "archive_caught e = (e = PermissionError \<or> e = FileNotFoundError)"

definition main_move :: "args \<Rightarrow> string \<Rightarrow> world \<Rightarrow> ExitCode outcome \<times> world" where
  "main_move a archive_dir w =
     (let target_file_path = join archive_dir (basename (dir1 a));
          failed = (\<lambda>e w'. if archive_caught e
                            then (Returned ARCHIVE_ERROR, logging (ArchiveFailed (dir1 a)) w')
                            else (Raised e, w'));
          moving = (\<lambda>w'. case move (dir1 a) archive_dir w' of
                            Inl e \<Rightarrow> failed e w'
                          | Inr w'' \<Rightarrow> (Returned SUCCESS, logging (Archived (dir1 a) archive_dir) w''))
      in if exists w target_file_path
         then (case remove target_file_path w of
                 Inl e \<Rightarrow> failed e w
               | Inr w' \<Rightarrow> moving (logging (OverwritingArchiveFile target_file_path) w'))
         else moving w)"

text \<open>Lines 212-219, then the move.\<close>

definition main_archive :: "args \<Rightarrow> world \<Rightarrow> ExitCode outcome \<times> world" where
  "main_archive a w =
     (let archive_dir = archive_dir_of a
      in if \<not> exists w archive_dir
         then (case makedirs archive_dir w of
                 (Some e, w') \<Rightarrow>
                   if is_OSError e
                   then (Returned CREATE_DIR_ERROR, logging (CreateArchiveDirectoryFailed archive_dir) w')
                   else (Raised e, w')
               | (None, w') \<Rightarrow> main_move a archive_dir (logging (CreatedArchiveDirectory archive_dir) w'))
         else main_move a archive_dir w)"

text \<open>Lines 199-209, then the archive: only PermissionError is caught.\<close>

definition main_write :: "args \<Rightarrow> string \<Rightarrow> string \<Rightarrow> world \<Rightarrow> ExitCode outcome \<times> world" where
  "main_write a output_xml_file xml_content w =
     (let w1 = (if exists w output_xml_file then logging (AlreadyExists output_xml_file) w else w)
      in case open_write output_xml_file xml_content w1 of
           Inl e \<Rightarrow>
             if e = PermissionError
             then (Returned WRITE_XML_ERROR, logging (WriteDenied output_xml_file) w1)
             else (Raised e, w1)
         | Inr w2 \<Rightarrow> main_archive a (logging (XmlWritten output_xml_file) w2))"

text \<open>Lines 186-196, then the write.\<close>

definition main_convert :: "pylib \<Rightarrow> args \<Rightarrow> world \<Rightarrow> ExitCode outcome \<times> world" where
  "main_convert lib a w =
     (let base_name = fst (splitext (basename (dir1 a)));
          output_xml_file = join (dir2 a) (base_name @ ''.xml'')
      in case read_html_file (dir1 a) w of
           (Raised e, w1) \<Rightarrow> (Raised e, w1)
         | (Returned None, w1) \<Rightarrow> (Returned READ_HTML_ERROR, w1)
         | (Returned (Some html_content), w1) \<Rightarrow>
             (case html_to_xml lib html_content of
                (lg, Inl e) \<Rightarrow> (Raised e, w1\<lparr>logged := logged w1 @ lg\<rparr>)
              | (lg, Inr None) \<Rightarrow> (Returned PARSE_XML_ERROR, w1\<lparr>logged := logged w1 @ lg\<rparr>)
              | (lg, Inr (Some xml_content)) \<Rightarrow>
                  main_write a output_xml_file xml_content (w1\<lparr>logged := logged w1 @ lg\<rparr>)))"

text \<open>\<open>main\<close>: lines 176-183, the output directory, then the rest.\<close>

definition main :: "pylib \<Rightarrow> args \<Rightarrow> world \<Rightarrow> ExitCode outcome \<times> world" where
  "main lib a w =
     (let output_dir = dir2 a
      in if \<not> exists w output_dir
         then (case makedirs output_dir w of
                 (Some e, w') \<Rightarrow>
                   if is_OSError e
                   then (Returned CREATE_DIR_ERROR, logging (CreateDirectoryFailed output_dir) w')
                   else (Raised e, w')
               | (None, w') \<Rightarrow> main_convert lib a (logging (CreatedDirectory output_dir) w'))
         else main_convert lib a w)"

section \<open>The specification's words, and sample inputs\<close>

text \<open>The definitions of this section follow the wording of the specification, to be
  compared with the definitions above, which follow \<open>parser.py\<close>.\<close>

text \<open>"the first cell's trimmed text (with any trailing colon removed)"\<close>

definition strip_trailing_colon :: "string \<Rightarrow> string" where
  "strip_trailing_colon s = (if s \<noteq> [] \<and> last s = CHR '':'' then butlast s else s)"

text \<open>"the last whitespace-delimited token of the Date field"\<close>

definition last_token :: "string \<Rightarrow> string" where
  "last_token s = rev (takeWhile (\<lambda>c. \<not> py_isspace c) (dropWhile py_isspace (rev s)))"

text \<open>"the Time field with periods replaced by colons"\<close>

definition periods_to_colons :: "string \<Rightarrow> string" where
  "periods_to_colons s = map (\<lambda>c. if c = CHR ''.'' then CHR '':'' else c) s"

text \<open>"a fixed sibling directory name located two levels up from the source file's
  directory (i.e., sibling of the source file's parent's parent)"\<close>

definition spec_archive_dir :: "string \<Rightarrow> string" where
  "spec_archive_dir source = join (dirname (dirname (dirname source))) ''arhiiv''"

text \<open>"ISO-8601, no timezone offset": \<open>d\<close> in a pattern stands for a digit, every other
  character for itself.\<close>

fun fits :: "string \<Rightarrow> string \<Rightarrow> bool" where
  "fits [] [] = True"
| "fits (p # ps) (c # cs) = ((if p = CHR ''d'' then is_digit c else c = p) \<and> fits ps cs)"
| "fits _ _ = False"

definition iso8601_naive :: "string \<Rightarrow> bool" where
  "iso8601_naive s = (fits ''dddd-dd-ddTdd:dd:dd'' s \<or> fits ''dddd-dd-ddTdd:dd:dd.dddddd'' s)"

text \<open>The fields of a datetime within the ranges of the calendar and the clock.\<close>

definition field_ranges :: "datetime \<Rightarrow> bool" where
  "field_ranges t =
     (1 \<le> year t \<and> year t \<le> 9999 \<and> 1 \<le> month t \<and> month t \<le> 12 \<and> 1 \<le> day t \<and> day t \<le> 31
      \<and> 0 \<le> hour t \<and> hour t \<le> 23 \<and> 0 \<le> minute t \<and> minute t \<le> 59
      \<and> 0 \<le> second t \<and> second t \<le> 59 \<and> 0 \<le> microsecond t \<and> microsecond t \<le> 999999)"

text \<open>Sample inputs: a dictionary with the six required keys, a document with one row for
  each entry of a list, and a run on one source file.\<close>

definition sample_entries :: "string \<Rightarrow> string \<Rightarrow> string option \<Rightarrow> (string \<times> string) list" where
  "sample_entries date_str time_str exec =
     [(''Station ID'', ''S1''), (''Serial Number'', ''SN42''), (''Sequence Name'', ''FCT''),
      (''UUT Result'', ''Passed''), (''Date'', date_str), (''Time'', time_str)]
     @ (case exec of None \<Rightarrow> [] | Some e \<Rightarrow> [(''Execution Time'', e)])"

definition sample_fields :: "string \<Rightarrow> string \<Rightarrow> string option \<Rightarrow> raw_fields" where
  "sample_fields date_str time_str exec = map_of (sample_entries date_str time_str exec)"

definition sample_row :: "string \<times> string \<Rightarrow> html" where
  "sample_row kv = Tag ''tr'' [Tag ''td'' [Text (fst kv)], Tag ''td'' [Text (snd kv)]]"

definition sample_soup :: "(string \<times> string) list \<Rightarrow> html" where
  "sample_soup entries = Tag ''[document]'' [Tag ''table'' (map sample_row entries)]"

definition sample_lib :: "html \<Rightarrow> pylib" where
  "sample_lib soup =
     \<lparr>BeautifulSoup = (\<lambda>_. soup), ET_tostring = (\<lambda>_. ''<UGSTesterCom />''),
      minidom_parseString = (\<lambda>_. Inr (Element ''UGSTesterCom'' [] None [])),
      toprettyxml = (\<lambda>_. ''<UGSTesterCom/>'')\<rparr>"

definition sample_args :: args where
  "sample_args = \<lparr>dir1 = ''/data/station/in/report.html'', dir2 = ''/data/out'', archive = None\<rparr>"

definition no_faults :: "os_op \<Rightarrow> string \<Rightarrow> py_exn option" where
  "no_faults operation p = None"

definition sample_world :: "(os_op \<Rightarrow> string \<Rightarrow> py_exn option) \<Rightarrow> world" where
  "sample_world f =
     \<lparr>fs = [''/'' \<mapsto> Dir, ''/data'' \<mapsto> Dir, ''/data/station'' \<mapsto> Dir,
            ''/data/station/in'' \<mapsto> Dir,
            ''/data/station/in/report.html'' \<mapsto> File ''<table>...</table>''],
      faults = f, logged = []\<rparr>"


definition good_lib :: pylib where
  "good_lib = sample_lib (sample_soup (sample_entries ''Friday 2024'' ''13.05.00'' None))"

text \<open>A file system with the root directory and nothing else.\<close>

definition bare_world :: world where
  "bare_world = \<lparr>fs = [''/'' \<mapsto> Dir], faults = no_faults, logged = []\<rparr>"

section \<open>Properties\<close>

subsection \<open>Lemmas on strings and rows\<close>

lemma foldl_extract_row_other:
  "\<forall>r \<in> set rows. length (find_all ''td'' r) = 2 \<longrightarrow> row_header (find_all ''td'' r) \<noteq> h
   \<Longrightarrow> foldl extract_row d rows h = d h"
  by (induction rows arbitrary: d) (auto simp: extract_row_def Let_def)

lemma foldl_extract_row_last:
  assumes "length (find_all ''td'' row) = 2"
    and "\<forall>r \<in> set after. length (find_all ''td'' r) = 2 \<longrightarrow> row_header (find_all ''td'' r) \<noteq> row_header (find_all ''td'' row)"
  shows "foldl extract_row d (before @ row # after) (row_header (find_all ''td'' row)) = Some (row_value (find_all ''td'' row))"
  using assms by (simp add: foldl_extract_row_other extract_row_def Let_def)

lemma py_replace_no_occurrence: "c \<notin> set s \<Longrightarrow> py_replace c r s = s"
  by (induction s) (auto simp: py_replace_def)

lemma py_replace_removes: "c \<notin> set (py_replace c [] s)"
  by (induction s) (auto simp: py_replace_def)

lemma py_replace_char: "py_replace c [d] s = map (\<lambda>x. if x = c then d else x) s"
  by (induction s) (auto simp: py_replace_def)

lemma split_acc_Nil_iff: "split_acc cur s = [] \<longleftrightarrow> cur = [] \<and> (\<forall>c \<in> set s. py_isspace c)"
  by (induction cur s rule: split_acc.induct) auto

lemma last_token_append_space:
  assumes "py_isspace c" "\<exists>x \<in> set cs. \<not> py_isspace x"
  shows "last_token (pre @ c # cs) = last_token cs"
proof -
  obtain x where x: "x \<in> set (rev cs)" "\<not> py_isspace x"
    using assms(2) by auto
  have d: "dropWhile py_isspace (rev cs @ c # rev pre) = dropWhile py_isspace (rev cs) @ c # rev pre"
    using x by (rule dropWhile_append1)
  have t: "takeWhile (\<lambda>c. \<not> py_isspace c) (ys @ c # zs) = takeWhile (\<lambda>c. \<not> py_isspace c) ys" for ys zs
    using assms(1) by (induction ys) auto
  show ?thesis
    by (simp add: last_token_def d t)
qed

lemma last_token_trailing_spaces:
  assumes "\<forall>x \<in> set cs. py_isspace x" "\<forall>x \<in> set pre. \<not> py_isspace x"
  shows "last_token (pre @ cs) = pre"
proof -
  have d: "dropWhile py_isspace (rev cs @ rev pre) = dropWhile py_isspace (rev pre)"
    by (rule dropWhile_append2) (use assms(1) in auto)
  have e: "dropWhile py_isspace (rev pre) = rev pre"
    using assms(2) by (cases "rev pre") auto
  have t: "takeWhile (\<lambda>c. \<not> py_isspace c) (rev pre) = rev pre"
    using assms(2) by (simp add: takeWhile_eq_all_conv)
  show ?thesis
    by (simp add: last_token_def d e t)
qed

lemma split_acc_last:
  "\<forall>c \<in> set cur. \<not> py_isspace c \<Longrightarrow> split_acc cur s \<noteq> [] \<Longrightarrow> last (split_acc cur s) = last_token (rev cur @ s)"
proof (induction cur s rule: split_acc.induct)
  case (1 cur)
  then show ?case
    using last_token_trailing_spaces [of "[]" "rev cur"] by (simp split: if_splits)
next
  case (2 cur c cs)
  show ?case
  proof (cases "py_isspace c")
    case False
    then show ?thesis using 2 by simp
  next
    case sp: True
    show ?thesis
    proof (cases "\<forall>x \<in> set cs. py_isspace x")
      case True
      then have e: "split_acc [] cs = []" by (simp add: split_acc_Nil_iff)
      have "cur \<noteq> []" using "2.prems"(2) sp e by (auto split: if_splits)
      moreover have "last_token (rev cur @ c # cs) = rev cur"
        using last_token_trailing_spaces [of "c # cs" "rev cur"] True sp "2.prems"(1) by simp
      ultimately show ?thesis using sp e by simp
    next
      case False
      then have ne: "split_acc [] cs \<noteq> []" by (simp add: split_acc_Nil_iff)
      have "last (split_acc [] cs) = last_token cs"
      proof (cases "cur = []")
        case True
        then show ?thesis using "2.IH"(1) sp ne by simp
      next
        case False
        then show ?thesis using "2.IH"(2) sp ne by simp
      qed
      moreover have "last_token (rev cur @ c # cs) = last_token cs"
        using last_token_append_space [of c cs "rev cur"] sp False by blast
      ultimately show ?thesis using sp ne by simp
    qed
  qed
qed

lemma py_split_last: "py_split s \<noteq> [] \<Longrightarrow> last (py_split s) = last_token s"
  using split_acc_last [of "[]" s] by (simp add: py_split_def)

subsection \<open>Evaluations of the library functions\<close>

lemma bit_length_numeral: "bit_length (numeral k) = Suc (bit_length (numeral k div 2))"
  by (subst bit_length.simps) simp
lemma bit_length_0: "bit_length 0 = 0"
  by (subst bit_length.simps) simp
lemma bit_length_1: "bit_length (Suc 0) = 1"
  by (subst bit_length.simps) (simp add: bit_length_0)
lemma bit_length_45: "bit_length 45 = 6"
  by (simp add: bit_length_numeral bit_length_0 bit_length_1)
lemma floor_log2_45: "floor_log2 45 = 5"
  by (simp add: floor_log2_def pow2_def Let_def bit_length_45 bit_length_1)
lemma round_binary64_45: "round_binary64 45 = Finite 45"
  unfolding round_binary64_def Let_def by (simp add: floor_log2_45) (simp add: pow2_def round_half_even_def)
lemma py_float_45: "py_float ''45'' = Inr (Finite 45)"
  by (simp add: py_float_def float_strip_def float_space_def is_digit_def take_sign_def to_lower_def
      float_decimal_def float_exponent_def digits_val_def digit_val_def round_binary64_45)

lemma composite_2024: "composite_time ''Friday 2024'' ''13.05.00'' = Inr ''2024 13:05:00''"
  by code_simp

lemma strptime_2024:
  "strptime ''2024 13:05:00''
     = Inr \<lparr>year = 2024, month = 1, day = 1, hour = 13, minute = 5, second = 0, microsecond = 0\<rparr>"
  by code_simp

lemma timedelta_45: "timedelta_seconds (Finite 45) = Inr \<lparr>td_days = 0, td_seconds = 45, td_microseconds = 0\<rparr>"
  by code_simp

lemma add_45:
  "datetime_add \<lparr>year = 2024, month = 1, day = 1, hour = 13, minute = 5, second = 0, microsecond = 0\<rparr>
     \<lparr>td_days = 0, td_seconds = 45, td_microseconds = 0\<rparr>
   = Inr \<lparr>year = 2024, month = 1, day = 1, hour = 13, minute = 5, second = 45, microsecond = 0\<rparr>"
  by code_simp

lemma token_45: "index_first (py_split ''45 seconds'') = Inr ''45''"
  by code_simp

lemma sample_convert_45:
  "convert_fields (sample_fields ''Friday 2024'' ''13.05.00'' (Some ''45 seconds''))
     = ([], Inr (Some \<lparr>station_id = ''S1'', serial_number = ''SN42'', sequence_name = ''FCT'',
          execution_time = Finite 45, status = ''PASS'',
          start_time = \<lparr>year = 2024, month = 1, day = 1, hour = 13, minute = 5, second = 0, microsecond = 0\<rparr>,
          end_time = \<lparr>year = 2024, month = 1, day = 1, hour = 13, minute = 5, second = 45, microsecond = 0\<rparr>\<rparr>))"
  by (simp add: convert_fields_def execution_time_token_def parse_block_def dict_get_def
      sample_fields_def sample_entries_def required_fields_def token_45 py_float_45
      composite_2024 strptime_2024 timedelta_45 add_45)

lemma composite_bad: "composite_time ''Friday 2024-05-01'' ''13.05.00'' = Inr ''2024-05-01 13:05:00''"
  by code_simp

lemma strptime_bad: "strptime ''2024-05-01 13:05:00'' = Inl ValueError"
  by code_simp

lemma sample_convert_bad:
  "convert_fields (sample_fields ''Friday 2024-05-01'' ''13.05.00'' (Some ''45 seconds''))
     = ([ParseError], Inr None)"
  by (simp add: convert_fields_def execution_time_token_def parse_block_def dict_get_def
      sample_fields_def sample_entries_def required_fields_def token_45 py_float_45
      composite_bad strptime_bad)

lemma token_default: "index_first (py_split ''0 seconds'') = Inr ''0''"
  by code_simp

lemma py_float_0: "py_float ''0'' = Inr (Finite 0)"
  by (simp add: py_float_def float_strip_def float_space_def is_digit_def take_sign_def to_lower_def
      float_decimal_def float_exponent_def digits_val_def digit_val_def round_binary64_def)

lemma timedelta_0: "timedelta_seconds (Finite 0) = Inr \<lparr>td_days = 0, td_seconds = 0, td_microseconds = 0\<rparr>"
  by (simp add: timedelta_seconds_def trunc_def delta_of_microseconds_def)

lemma add_0:
  "datetime_add \<lparr>year = 2024, month = 1, day = 1, hour = 13, minute = 5, second = 0, microsecond = 0\<rparr>
     \<lparr>td_days = 0, td_seconds = 0, td_microseconds = 0\<rparr>
   = Inr \<lparr>year = 2024, month = 1, day = 1, hour = 13, minute = 5, second = 0, microsecond = 0\<rparr>"
  by code_simp

lemma sample_convert_default:
  "convert_fields (sample_fields ''Friday 2024'' ''13.05.00'' None)
     = ([], Inr (Some \<lparr>station_id = ''S1'', serial_number = ''SN42'', sequence_name = ''FCT'',
          execution_time = Finite 0, status = ''PASS'',
          start_time = \<lparr>year = 2024, month = 1, day = 1, hour = 13, minute = 5, second = 0, microsecond = 0\<rparr>,
          end_time = \<lparr>year = 2024, month = 1, day = 1, hour = 13, minute = 5, second = 0, microsecond = 0\<rparr>\<rparr>))"
  by (simp add: convert_fields_def execution_time_token_def parse_block_def dict_get_def
      sample_fields_def sample_entries_def required_fields_def token_default py_float_0
      composite_2024 strptime_2024 timedelta_0 add_0)

lemma isoformat_2024:
  "isoformat \<lparr>year = 2024, month = 1, day = 1, hour = 13, minute = 5, second = 0, microsecond = 0\<rparr>
     = ''2024-01-01T13:05:00''"
  by code_simp

subsection \<open>The conversion, step by step\<close>

lemma first_missing_None: "first_missing data ks = None \<longleftrightarrow> (\<forall>f \<in> set ks. data f \<noteq> None)"
  by (induction ks) auto

lemma convert_fields_SomeD:
  assumes "snd (convert_fields data) = Inr (Some r)"
  shows "\<exists>tok x comp delta.
           execution_time_token data = Inr tok \<and> first_missing data required_fields = None
           \<and> py_float tok = Inr x
           \<and> composite_time (dict_get data ''Date'' []) (dict_get data ''Time'' []) = Inr comp
           \<and> strptime comp = Inr (start_time r) \<and> timedelta_seconds x = Inr delta
           \<and> datetime_add (start_time r) delta = Inr (end_time r) \<and> execution_time r = x
           \<and> status r = (if py_in ''Passed'' (dict_get data ''UUT Result'' []) then ''PASS'' else ''FAIL'')
           \<and> station_id r = dict_get data ''Station ID'' []
           \<and> serial_number r = dict_get data ''Serial Number'' []
           \<and> sequence_name r = dict_get data ''Sequence Name'' []"
  using assms
  by (auto simp: convert_fields_def parse_block_def Let_def split: sum.splits option.splits if_splits prod.splits)

subsection \<open>The calendar\<close>

lemma month_cases:
  assumes "1 \<le> (m::int)" "m \<le> 12"
  obtains "m = 1" | "m = 2" | "m = 3" | "m = 4" | "m = 5" | "m = 6"
    | "m = 7" | "m = 8" | "m = 9" | "m = 10" | "m = 11" | "m = 12"
proof -
  from assms have "m = 1 \<or> m = 2 \<or> m = 3 \<or> m = 4 \<or> m = 5 \<or> m = 6
      \<or> m = 7 \<or> m = 8 \<or> m = 9 \<or> m = 10 \<or> m = 11 \<or> m = 12"
    by arith
  then show thesis using that by blast
qed

lemma days_in_month_bounds:
  assumes "1 \<le> m" "m \<le> 12"
  shows "28 \<le> days_in_month y m \<and> days_in_month y m \<le> 31"
  using assms(1,2) by (rule month_cases) (simp_all add: days_in_month_def days_in_month_table_def)

lemma ord_to_ymd_year:
  assumes "1 \<le> n" "n \<le> MAXORDINAL" "ord_to_ymd n = (y, m, d)"
  shows "1 \<le> y \<and> y \<le> 9999"
proof -
  define o1 where "o1 = n - 1"
  define n400 where "n400 = o1 div 146097"
  define r400 where "r400 = o1 mod 146097"
  define n100 where "n100 = r400 div 36524"
  define r100 where "r100 = r400 mod 36524"
  define n4 where "n4 = r100 div 1461"
  define r4 where "r4 = r100 mod 1461"
  define n1 where "n1 = r4 div 365"
  define k where "k = r4 mod 365"
  have o: "0 \<le> o1" "o1 \<le> 3652058" using assms(1,2) by (simp_all add: o1_def MAXORDINAL_def)
  have e1: "o1 = 146097 * n400 + r400" "0 \<le> r400" "r400 < 146097"
    by (simp_all add: n400_def r400_def)
  have e2: "r400 = 36524 * n100 + r100" "0 \<le> r100" "r100 < 36524"
    by (simp_all add: n100_def r100_def)
  have e3: "r100 = 1461 * n4 + r4" "0 \<le> r4" "r4 < 1461"
    by (simp_all add: n4_def r4_def)
  have e4: "r4 = 365 * n1 + k" "0 \<le> k" "k < 365"
    by (simp_all add: n1_def k_def)
  have nn: "0 \<le> n400" "0 \<le> n100" "0 \<le> n4" "0 \<le> n1"
    using o(1) e1(2) e2(2) e3(2)
    by (simp_all only: n400_def n100_def n4_def n1_def pos_imp_zdiv_nonneg_iff)
  have ub: "n100 \<le> 4" "n4 \<le> 24" "n1 \<le> 4"
    using e1 e2 e3 e4 nn by linarith+
  have y: "y = (if n1 = 4 \<or> n100 = 4 then n400 * 400 + 1 + n100 * 100 + n4 * 4 + n1 - 1
                else n400 * 400 + 1 + n100 * 100 + n4 * 4 + n1)"
    using assms(3)
    by (auto simp: ord_to_ymd_def Let_def o1_def n400_def r400_def n100_def r100_def n4_def r4_def n1_def k_def split: if_splits)
  show ?thesis
    using y o e1 e2 e3 e4 nn ub by (auto split: if_splits)
qed

lemma month_day_all:
  "list_all (\<lambda>k. \<forall>b \<in> set [True, False]. \<forall>l \<in> set [True, False].
      (let m0 = (k + 50) div 32;
           p0 = days_before_month_table ! nat m0 + (if 2 < m0 \<and> b then 1 else 0);
           m = (if k < p0 then m0 - 1 else m0);
           dim = (if m0 - 1 = 2 \<and> l then 29 else days_in_month_table ! nat (m0 - 1));
           preceding = (if k < p0 then p0 - dim else p0)
       in 1 \<le> m \<and> m \<le> 12 \<and> 1 \<le> k - preceding + 1 \<and> k - preceding + 1 \<le> 31)) [0..364]"
  by code_simp

lemma ord_to_ymd_month_day:
  assumes "ord_to_ymd n = (y, m, d)"
  shows "1 \<le> m \<and> m \<le> 12 \<and> 1 \<le> d \<and> d \<le> 31"
proof -
  define r4 where "r4 = (n - 1) mod 146097 mod 36524 mod 1461"
  define n100 where "n100 = (n - 1) mod 146097 div 36524"
  define n4 where "n4 = (n - 1) mod 146097 mod 36524 div 1461"
  define n1 where "n1 = r4 div 365"
  define k where "k = r4 mod 365"
  define yy where "yy = (n - 1) div 146097 * 400 + 1 + n100 * 100 + n4 * 4 + n1"
  define b where "b = (n1 = 3 \<and> (n4 \<noteq> 24 \<or> n100 = 3))"
  define l where "l = is_leap yy"
  define m0 where "m0 = (k + 50) div 32"
  define p0 where "p0 = days_before_month_table ! nat m0 + (if 2 < m0 \<and> b then 1 else 0)"
  define dim where "dim = (if m0 - 1 = 2 \<and> l then 29 else days_in_month_table ! nat (m0 - 1))"
  have "0 \<le> k" "k \<le> 364" by (simp_all add: k_def)
  then have "k \<in> set [0..364]" by simp
  moreover have "b \<in> set [True, False]" "l \<in> set [True, False]" by auto
  ultimately have ok: "1 \<le> (if k < p0 then m0 - 1 else m0) \<and> (if k < p0 then m0 - 1 else m0) \<le> 12
      \<and> 1 \<le> k - (if k < p0 then p0 - dim else p0) + 1 \<and> k - (if k < p0 then p0 - dim else p0) + 1 \<le> 31"
    using month_day_all unfolding list_all_iff Let_def m0_def p0_def dim_def by blast
  have eq: "ord_to_ymd n = (if n1 = 4 \<or> n100 = 4 then (yy - 1, 12, 31)
             else (yy, (if k < p0 then m0 - 1 else m0), k - (if k < p0 then p0 - dim else p0) + 1))"
    unfolding ord_to_ymd_def Let_def r4_def n100_def n4_def n1_def k_def yy_def b_def l_def m0_def p0_def
      dim_def days_in_month_def
    by simp
  show ?thesis
    using assms ok unfolding eq by (auto split: if_splits)
qed

lemma normalize_y_m_d_ranges:
  assumes "1 \<le> m" "m \<le> 12" "normalize_y_m_d y m d = Inr (y', m', d')"
  shows "1 \<le> y' \<and> y' \<le> 9999 \<and> 1 \<le> m' \<and> m' \<le> 12 \<and> 1 \<le> d' \<and> d' \<le> 31"
proof -
  have dim: "28 \<le> days_in_month y m" "days_in_month y m \<le> 31"
    using days_in_month_bounds [OF assms(1,2)] by simp_all
  show ?thesis
  proof (cases "d < 1 \<or> days_in_month y m < d")
    case False
    then show ?thesis using assms dim by (auto simp: normalize_y_m_d_def Let_def split: if_splits)
  next
    case out: True
    show ?thesis
    proof (cases "d = 0")
      case True
      show ?thesis
      proof (cases "0 < m - 1")
        case True
        then have "28 \<le> days_in_month y (m - 1) \<and> days_in_month y (m - 1) \<le> 31"
          using assms(2) by (intro days_in_month_bounds) auto
        then show ?thesis using assms out \<open>d = 0\<close> True
          by (auto simp: normalize_y_m_d_def Let_def split: if_splits)
      next
        case False
        then show ?thesis using assms out \<open>d = 0\<close>
          by (auto simp: normalize_y_m_d_def Let_def split: if_splits)
      qed
    next
      case nz: False
      show ?thesis
      proof (cases "d = days_in_month y m + 1")
        case True
        then show ?thesis using assms out nz
          by (auto simp: normalize_y_m_d_def Let_def split: if_splits)
      next
        case False
        then have o: "1 \<le> ymd_to_ord y m 1 + d - 1" "ymd_to_ord y m 1 + d - 1 \<le> MAXORDINAL"
          "ord_to_ymd (ymd_to_ord y m 1 + d - 1) = (y', m', d')"
          using assms(3) out nz by (auto simp: normalize_y_m_d_def Let_def split: if_splits)
        show ?thesis
          using ord_to_ymd_year [OF o] ord_to_ymd_month_day [OF o(3)] by simp
      qed
    qed
  qed
qed

lemma datetime_add_ranges:
  assumes "field_ranges t" "datetime_add t delta = Inr t'"
  shows "field_ranges t'"
proof -
  define us where "us = microsecond t + td_microseconds delta"
  define s where "s = second t + td_seconds delta + us div 1000000"
  define mi where "mi = minute t + s div 60"
  define h where "h = hour t + mi div 60"
  define d where "d = day t + td_days delta + h div 24"
  have eq: "datetime_add t delta =
      (case normalize_y_m_d (year t) (month t) d of
         Inl e \<Rightarrow> Inl e
       | Inr (y', m', d') \<Rightarrow>
           Inr \<lparr>year = y', month = m', day = d', hour = h mod 24, minute = mi mod 60,
                second = s mod 60, microsecond = us mod 1000000\<rparr>)"
    unfolding datetime_add_def Let_def us_def s_def mi_def h_def d_def by (rule refl)
  obtain y' m' d' where n: "normalize_y_m_d (year t) (month t) d = Inr (y', m', d')"
    and t': "t' = \<lparr>year = y', month = m', day = d', hour = h mod 24, minute = mi mod 60,
                second = s mod 60, microsecond = us mod 1000000\<rparr>"
    using assms(2) unfolding eq by (auto split: sum.splits)
  have "1 \<le> month t" "month t \<le> 12" using assms(1) by (simp_all add: field_ranges_def)
  from normalize_y_m_d_ranges [OF this n]
  have ymd: "1 \<le> y' \<and> y' \<le> 9999 \<and> 1 \<le> m' \<and> m' \<le> 12 \<and> 1 \<le> d' \<and> d' \<le> 31" .
  have "h mod 24 < 24" "mi mod 60 < 60" "s mod 60 < 60" "us mod 1000000 < 1000000"
    by simp_all
  then have "h mod 24 \<le> 23" "mi mod 60 \<le> 59" "s mod 60 \<le> 59" "us mod 1000000 \<le> 999999"
    by linarith+
  with ymd show ?thesis
    by (simp add: field_ranges_def t')
qed

lemma new_datetime_ranges:
  assumes "new_datetime y mo d h mi s us = Inr t"
  shows "field_ranges t \<and> month t = mo \<and> day t = d \<and> microsecond t = us"
proof -
  have v: "1 \<le> mo" "mo \<le> 12" "d \<le> days_in_month y mo"
    using assms by (auto simp: new_datetime_def split: if_splits)
  have "days_in_month y mo \<le> 31" using days_in_month_bounds [OF v(1,2)] by simp
  then show ?thesis
    using assms v by (auto simp: new_datetime_def field_ranges_def split: if_splits)
qed

lemma strptime_ranges:
  assumes "strptime s = Inr t"
  shows "field_ranges t \<and> month t = 1 \<and> day t = 1 \<and> microsecond t = 0"
  using assms
  by (auto simp: strptime_def split: list.splits prod.splits if_splits dest: new_datetime_ranges)

lemma datetime_add_zero:
  assumes "field_ranges t" "month t = 1" "day t = 1"
  shows "datetime_add t \<lparr>td_days = 0, td_seconds = 0, td_microseconds = 0\<rparr> = Inr t"
  using assms
  by (simp add: datetime_add_def normalize_y_m_d_def days_in_month_def days_in_month_table_def
      field_ranges_def Let_def)


lemma is_digit_digit_char: "k < 10 \<Longrightarrow> is_digit (digit_char k)"
  by (simp add: is_digit_def digit_char_def)

lemma show_nat_digits: "list_all is_digit (show_nat n)"
proof (induction n rule: show_nat.induct)
  case (1 n)
  show ?case
  proof (cases "n < 10")
    case True
    then show ?thesis by (subst show_nat.simps) (simp add: is_digit_digit_char)
  next
    case False
    then show ?thesis using 1 by (subst show_nat.simps) (simp add: is_digit_digit_char)
  qed
qed

lemma show_nat_length: "n < 10 ^ w \<Longrightarrow> 0 < w \<Longrightarrow> length (show_nat n) \<le> w"
proof (induction n arbitrary: w rule: show_nat.induct)
  case (1 n)
  show ?case
  proof (cases "n < 10")
    case True
    then show ?thesis using "1.prems" by (subst show_nat.simps) simp
  next
    case False
    obtain v where w: "w = Suc v" using "1.prems"(2) by (cases w) auto
    have "0 < v" using False "1.prems"(1) w by (cases v) auto
    moreover have "n div 10 < 10 ^ v" using "1.prems"(1) w by (simp add: less_mult_imp_div_less mult.commute)
    ultimately have "length (show_nat (n div 10)) \<le> v" using "1.IH" [OF False] by simp
    then show ?thesis using False w by (subst show_nat.simps) simp
  qed
qed

lemma zpad_digits:
  assumes "0 \<le> n" "n < 10 ^ w" "0 < w"
  shows "length (zpad w n) = w \<and> list_all is_digit (zpad w n)"
proof -
  have "nat n < 10 ^ w" using assms(1,2) by (simp add: nat_less_iff)
  then have "length (show_nat (nat n)) \<le> w" using assms(3) by (rule show_nat_length)
  moreover have "is_digit CHR ''0''" by (simp add: is_digit_def)
  ultimately show ?thesis
    using show_nat_digits [of "nat n"] by (auto simp: zpad_def list_all_iff)
qed

lemma fits_digits: "list_all is_digit s \<Longrightarrow> fits (replicate (length s) CHR ''d'') s"
  by (induction s) auto

lemma fits_append: "fits p s \<Longrightarrow> fits q u \<Longrightarrow> fits (p @ q) (s @ u)"
  by (induction p s rule: fits.induct) auto

lemma fits_zpad:
  assumes "0 \<le> n" "n < 10 ^ w" "0 < w"
  shows "fits (replicate w CHR ''d'') (zpad w n)"
  using zpad_digits [OF assms] fits_digits [of "zpad w n"] by simp

lemma isoformat_iso8601:
  assumes "field_ranges t"
  shows "iso8601_naive (isoformat t)"
proof -
  have y: "fits (replicate 4 CHR ''d'') (zpad 4 (year t))"
    and mo: "fits (replicate 2 CHR ''d'') (zpad 2 (month t))"
    and d: "fits (replicate 2 CHR ''d'') (zpad 2 (day t))"
    and h: "fits (replicate 2 CHR ''d'') (zpad 2 (hour t))"
    and mi: "fits (replicate 2 CHR ''d'') (zpad 2 (minute t))"
    and s: "fits (replicate 2 CHR ''d'') (zpad 2 (second t))"
    and us: "fits (replicate 6 CHR ''d'') (zpad 6 (microsecond t))"
    using assms by (auto simp: field_ranges_def intro!: fits_zpad)
  have sep: "fits ''-'' ''-''" "fits ''T'' ''T''" "fits '':'' '':''" "fits ''.'' ''.''"
    by simp_all
  have base: "fits (replicate 4 CHR ''d'' @ ''-'' @ replicate 2 CHR ''d'' @ ''-'' @ replicate 2 CHR ''d'' @ ''T''
        @ replicate 2 CHR ''d'' @ '':'' @ replicate 2 CHR ''d'' @ '':'' @ replicate 2 CHR ''d'')
      (zpad 4 (year t) @ ''-'' @ zpad 2 (month t) @ ''-'' @ zpad 2 (day t) @ ''T''
        @ zpad 2 (hour t) @ '':'' @ zpad 2 (minute t) @ '':'' @ zpad 2 (second t))"
    by (intro fits_append y mo d h mi s sep)
  show ?thesis
  proof (cases "microsecond t = 0")
    case True
    have "fits ''dddd-dd-ddTdd:dd:dd'' (isoformat t)"
      using base True by (simp add: isoformat_def numeral_eq_Suc)
    then show ?thesis by (simp add: iso8601_naive_def)
  next
    case False
    have "fits ((replicate 4 CHR ''d'' @ ''-'' @ replicate 2 CHR ''d'' @ ''-'' @ replicate 2 CHR ''d'' @ ''T''
        @ replicate 2 CHR ''d'' @ '':'' @ replicate 2 CHR ''d'' @ '':'' @ replicate 2 CHR ''d'')
          @ (''.'' @ replicate 6 CHR ''d''))
      ((zpad 4 (year t) @ ''-'' @ zpad 2 (month t) @ ''-'' @ zpad 2 (day t) @ ''T''
        @ zpad 2 (hour t) @ '':'' @ zpad 2 (minute t) @ '':'' @ zpad 2 (second t))
          @ (''.'' @ zpad 6 (microsecond t)))"
      by (intro fits_append base us sep)
    then have "fits ''dddd-dd-ddTdd:dd:dd.dddddd'' (isoformat t)"
      using False by (simp add: isoformat_def numeral_eq_Suc)
    then show ?thesis by (simp add: iso8601_naive_def)
  qed
qed

subsection \<open>The stages of main\<close>

lemma logging_fields [simp]:
  "fs (logging ev w) = fs w" "faults (logging ev w) = faults w" "exists (logging ev w) p = exists w p"
  by (simp_all add: logging_def exists_def)

lemma logged_append_fields [simp]:
  "fs (w\<lparr>logged := l\<rparr>) = fs w" "faults (w\<lparr>logged := l\<rparr>) = faults w" "exists (w\<lparr>logged := l\<rparr>) p = exists w p"
  by (simp_all add: exists_def)

lemma read_html_file_world:
  "fs (snd (read_html_file p w)) = fs w \<and> faults (snd (read_html_file p w)) = faults w"
  by (simp add: read_html_file_def Let_def split: sum.splits)

lemma mkdir_world:
  assumes "mkdir name w = Inr w'"
  shows "faults w' = faults w \<and> logged w' = logged w \<and> fs w name = None
         \<and> fs w' = (fs w)(name \<mapsto> Dir)"
  using assms
  by (auto simp: mkdir_def exists_def split: option.splits if_splits node.splits)

lemma mkdir_exist_ok_world:
  assumes "mkdir_exist_ok name w = (r, w')"
  shows "faults w' = faults w \<and> logged w' = logged w
         \<and> (w' = w \<or> (fs w name = None \<and> fs w' = (fs w)(name \<mapsto> Dir)))"
proof (cases "mkdir name w")
  case (Inl e)
  then show ?thesis using assms by (auto simp: mkdir_exist_ok_def split: if_splits)
next
  case (Inr w2)
  then have "w' = w2" using assms by (simp add: mkdir_exist_ok_def)
  then show ?thesis using mkdir_world [OF Inr] by simp
qed

lemma makedirs_refused: "faults w Makedirs name = Some e \<Longrightarrow> makedirs name w = (Some e, w)"
  by (subst makedirs.simps) simp

text \<open>\<open>os.makedirs\<close> changes the file system only by new directories, at paths where the
  call is not refused.\<close>

lemma makedirs_world:
  "makedirs name w = (r, w') \<Longrightarrow>
     faults w' = faults w \<and> logged w' = logged w
     \<and> (\<forall>q. fs w' q = fs w q \<or> (fs w q = None \<and> fs w' q = Some Dir \<and> faults w Makedirs q = None))"
proof (induction name w arbitrary: r w' rule: makedirs.induct)
  case (1 name w)
  show ?case
  proof (cases "faults w Makedirs name")
    case (Some e)
    then show ?thesis using "1.prems" by (simp add: makedirs_refused)
  next
    case None
    have leaf: "faults w2 = faults w1 \<and> logged w2 = logged w1
        \<and> (\<forall>q. fs w2 q = fs w1 q \<or> (fs w1 q = None \<and> fs w2 q = Some Dir \<and> faults w Makedirs q = None))"
      if "mkdir_exist_ok name w1 = (r2, w2)" for w1 r2 w2
      using mkdir_exist_ok_world [OF that] None by (auto split: if_splits)
    show ?thesis
    proof (cases "fst (makedirs_split name) \<noteq> [] \<and> snd (makedirs_split name) \<noteq> []
        \<and> \<not> exists w (fst (makedirs_split name))")
      case False
      then have "mkdir_exist_ok name w = (r, w')"
        using "1.prems" None by (subst (asm) makedirs.simps) auto
      from leaf [OF this] show ?thesis by simp
    next
      case True
      obtain r1 w1 where h: "makedirs (fst (makedirs_split name)) w = (r1, w1)"
        by (cases "makedirs (fst (makedirs_split name)) w")
      have ih: "faults w1 = faults w \<and> logged w1 = logged w
        \<and> (\<forall>q. fs w1 q = fs w q \<or> (fs w q = None \<and> fs w1 q = Some Dir \<and> faults w Makedirs q = None))"
        using "1.IH" [OF None True h] .
      have "w' = w1 \<or> (\<exists>r2. mkdir_exist_ok name w1 = (r2, w'))"
        using "1.prems" None True h
        by (subst (asm) makedirs.simps) (auto split: option.splits if_splits)
      then show ?thesis
      proof
        assume "w' = w1"
        then show ?thesis using ih by simp
      next
        assume "\<exists>r2. mkdir_exist_ok name w1 = (r2, w')"
        then obtain r2 where "mkdir_exist_ok name w1 = (r2, w')" by blast
        from leaf [OF this] ih show ?thesis by metis
      qed
    qed
  qed
qed

lemma main_move_codes:
  "fst (main_move a ad w) = Returned c \<Longrightarrow> c = ARCHIVE_ERROR \<or> c = SUCCESS"
  by (auto simp: main_move_def Let_def split: sum.splits if_splits)

lemma main_archive_codes:
  "fst (main_archive a w) = Returned c \<Longrightarrow> c = CREATE_DIR_ERROR \<or> c = ARCHIVE_ERROR \<or> c = SUCCESS"
  by (auto simp: main_archive_def Let_def split: option.splits prod.splits if_splits dest: main_move_codes)




lemma main_write_frame:
  assumes "fst (main_write a out content w) \<in> {Returned READ_HTML_ERROR, Returned PARSE_XML_ERROR, Returned WRITE_XML_ERROR}"
  shows "fs (snd (main_write a out content w)) = fs w"
proof -
  define w1 where "w1 = (if exists w out then logging (AlreadyExists out) w else w)"
  have w1: "fs w1 = fs w" by (simp add: w1_def)
  show ?thesis
  proof (cases "open_write out content w1")
    case (Inl x)
    then show ?thesis using w1 by (simp add: main_write_def w1_def [symmetric])
  next
    case (Inr w2)
    then have "main_write a out content w = main_archive a (logging (XmlWritten out) w2)"
      by (simp add: main_write_def w1_def [symmetric])
    then show ?thesis using assms main_archive_codes [of a "logging (XmlWritten out) w2"] by auto
  qed
qed

lemma main_convert_frame:
  assumes "fst (main_convert lib a w) \<in> {Returned READ_HTML_ERROR, Returned PARSE_XML_ERROR, Returned WRITE_XML_ERROR}"
  shows "fs (snd (main_convert lib a w)) = fs w"
proof -
  obtain res w1 where r: "read_html_file (dir1 a) w = (res, w1)" by (cases "read_html_file (dir1 a) w")
  have w1: "fs w1 = fs w" using read_html_file_world [of "dir1 a" w] r by simp
  show ?thesis
  proof (cases "\<exists>content. res = Returned (Some content)")
    case False
    then show ?thesis using r w1
      by (cases res) (auto simp: main_convert_def Let_def split: option.splits)
  next
    case True
    then obtain content where c: "res = Returned (Some content)" by blast
    obtain lg x where h: "html_to_xml lib content = (lg, x)" by (cases "html_to_xml lib content")
    show ?thesis
    proof (cases "\<exists>xml_content. x = Inr (Some xml_content)")
      case False
      then show ?thesis using r c h w1
        by (cases x) (auto simp: main_convert_def Let_def split: option.splits)
    next
      case True
      then obtain xml_content where x: "x = Inr (Some xml_content)" by blast
      have e: "main_convert lib a w
                = main_write a (join (dir2 a) (fst (splitext (basename (dir1 a))) @ ''.xml'')) xml_content
                    (w1\<lparr>logged := logged w1 @ lg\<rparr>)"
        using r c h x by (simp add: main_convert_def Let_def)
      show ?thesis
        using assms main_write_frame [of a _ xml_content "w1\<lparr>logged := logged w1 @ lg\<rparr>"] w1
        unfolding e by simp
    qed
  qed
qed

lemma makedirs_bare:
  "makedirs ''/data/out'' bare_world
     = (None, bare_world\<lparr>fs := [''/'' \<mapsto> Dir, ''/data'' \<mapsto> Dir, ''/data/out'' \<mapsto> Dir]\<rparr>)"
proof -
  let ?w = "\<lparr>fs = [''/'' \<mapsto> Dir], faults = no_faults, logged = []\<rparr>"
  have s1: "makedirs_split ''/data/out'' = (''/data'', ''out'')"
    and s2: "makedirs_split ''/data'' = (''/'', ''data'')"
    by code_simp+
  have m1: "makedirs ''/data'' ?w
              = (None, \<lparr>fs = [''/'' \<mapsto> Dir, ''/data'' \<mapsto> Dir], faults = no_faults, logged = []\<rparr>)"
    by (subst makedirs.simps)
      (simp add: s2 no_faults_def exists_def mkdir_exist_ok_def mkdir_def)
  have "makedirs ''/data/out'' ?w
          = (None, \<lparr>fs = [''/'' \<mapsto> Dir, ''/data'' \<mapsto> Dir, ''/data/out'' \<mapsto> Dir],
                     faults = no_faults, logged = []\<rparr>)"
    by (subst makedirs.simps)
      (simp add: s1 m1 no_faults_def exists_def mkdir_exist_ok_def mkdir_def)
  then show ?thesis by (simp add: bare_world_def)
qed

lemma basename_append: "CHR ''/'' \<notin> set f \<Longrightarrow> basename (p @ ''/'' @ f) = f"
proof -
  assume "CHR ''/'' \<notin> set f"
  then have "takeWhile (\<lambda>c. c \<noteq> CHR ''/'') (rev f @ CHR ''/'' # rev p) = rev f"
    by (subst takeWhile_append2) auto
  then show ?thesis by (simp add: basename_def)
qed

lemma rstrip_sep_append: "d \<noteq> [] \<Longrightarrow> last d \<noteq> CHR ''/'' \<Longrightarrow> rstrip_sep (d @ ''/'') = d"
  by (cases d rule: rev_cases) (auto simp: rstrip_sep_def)

lemma dirname_append:
  assumes "CHR ''/'' \<notin> set f" "p \<noteq> []" "last p \<noteq> CHR ''/''"
  shows "dirname (p @ ''/'' @ f) = p"
proof -
  have "last p \<in> set p" using assms(2) by simp
  then have "\<exists>c \<in> set (p @ ''/''). c \<noteq> CHR ''/''" using assms(3) by auto
  moreover have "rstrip_sep (p @ ''/'') = p" using assms(2,3) by (rule rstrip_sep_append)
  ultimately show ?thesis
    using basename_append [OF assms(1), of p] by (simp add: dirname_def Let_def)
qed

subsection \<open>The field extractor\<close>

text \<open>
  C4, as the code has it. A row counts when \<open>find_all('td')\<close> finds exactly two cells
  below it. Its key is the trimmed text of the first cell with every colon removed (not
  only a trailing one), its value the trimmed text of the second cell, and the
  dictionary maps the key to the value unless a later such row has the same key. The key
  holds no colon; a trimmed text without a colon is the key unchanged; the cell
  \<open>Station ID:\<close> gives the key \<open>Station ID\<close>.
\<close>

theorem two_cell_row_extracted:
  assumes "find_all ''tr'' soup = before @ row # after"
    and "find_all ''td'' row = [key_cell, value_cell]"
    and "\<forall>r \<in> set after. length (find_all ''td'' r) = 2 \<longrightarrow>
           row_header (find_all ''td'' r) \<noteq> py_replace CHR '':'' [] (py_strip (get_text key_cell))"
  shows "extract_fields soup (py_replace CHR '':'' [] (py_strip (get_text key_cell)))
           = Some (py_strip (get_text value_cell))
         \<and> CHR '':'' \<notin> set (py_replace CHR '':'' [] (py_strip (get_text key_cell)))
         \<and> (CHR '':'' \<notin> set (py_strip (get_text key_cell)) \<longrightarrow>
              py_replace CHR '':'' [] (py_strip (get_text key_cell)) = py_strip (get_text key_cell))
         \<and> py_replace CHR '':'' [] (py_strip ''Station ID:'') = ''Station ID''"
proof -
  have h: "row_header (find_all ''td'' row) = py_replace CHR '':'' [] (py_strip (get_text key_cell))"
    and v: "row_value (find_all ''td'' row) = py_strip (get_text value_cell)"
    using assms(2) by (simp_all add: row_header_def row_value_def)
  have "foldl extract_row Map.empty (before @ row # after) (row_header (find_all ''td'' row))
          = Some (row_value (find_all ''td'' row))"
    by (rule foldl_extract_row_last) (use assms(2,3) h in simp_all)
  then have "extract_fields soup (py_replace CHR '':'' [] (py_strip (get_text key_cell)))
               = Some (py_strip (get_text value_cell))"
    using assms(1) h v by (simp add: extract_fields_def)
  moreover have "py_replace CHR '':'' [] (py_strip ''Station ID:'') = ''Station ID''"
    by (simp add: py_replace_def py_strip_def py_isspace_def)
  ultimately show ?thesis
    by (simp add: py_replace_removes py_replace_no_occurrence)
qed

text \<open>A document of three rows, the last of which writes the key \<open>Station ID\<close> again.\<close>

theorem two_cell_row_extracted_witness:
  "find_all ''tr'' (sample_soup [(''Station ID:'', ''S0''), (''Date'', ''x''), (''Station ID:'', '' S1 '')])
     = [sample_row (''Station ID:'', ''S0''), sample_row (''Date'', ''x'')]
       @ sample_row (''Station ID:'', '' S1 '') # []
   \<and> find_all ''td'' (sample_row (''Station ID:'', '' S1 ''))
     = [Tag ''td'' [Text ''Station ID:''], Tag ''td'' [Text '' S1 '']]
   \<and> extract_fields (sample_soup [(''Station ID:'', ''S0''), (''Date'', ''x''), (''Station ID:'', '' S1 '')])
        ''Station ID'' = Some ''S1''"
proof -
  let ?soup = "sample_soup [(''Station ID:'', ''S0''), (''Date'', ''x''), (''Station ID:'', '' S1 '')]"
  have h1: "find_all ''tr'' ?soup
              = [sample_row (''Station ID:'', ''S0''), sample_row (''Date'', ''x'')]
                @ sample_row (''Station ID:'', '' S1 '') # []"
    by (simp add: sample_soup_def sample_row_def find_all_def is_tag_def)
  have h2: "find_all ''td'' (sample_row (''Station ID:'', '' S1 ''))
              = [Tag ''td'' [Text ''Station ID:''], Tag ''td'' [Text '' S1 '']]"
    by (simp add: sample_row_def find_all_def is_tag_def)
  have h3: "\<forall>r \<in> set []. length (find_all ''td'' r) = 2 \<longrightarrow>
              row_header (find_all ''td'' r)
                \<noteq> py_replace CHR '':'' [] (py_strip (get_text (Tag ''td'' [Text ''Station ID:''])))"
    by simp
  have k: "py_replace CHR '':'' [] (py_strip (get_text (Tag ''td'' [Text ''Station ID:'']))) = ''Station ID''"
    and v: "py_strip (get_text (Tag ''td'' [Text '' S1 ''])) = ''S1''"
    by (simp_all add: py_replace_def py_strip_def py_isspace_def)
  have "extract_fields ?soup (py_replace CHR '':'' [] (py_strip (get_text (Tag ''td'' [Text ''Station ID:'']))))
          = Some (py_strip (get_text (Tag ''td'' [Text '' S1 ''])))"
    using two_cell_row_extracted [OF h1 h2 h3] by (rule conjunct1)
  then have "extract_fields ?soup ''Station ID'' = Some ''S1''"
    by (simp only: k v)
  then show ?thesis
    using h1 h2 by (intro conjI)
qed

text \<open>
  C4 as the specification words it, with only a trailing colon removed and the inside of
  the key unchanged, fails on the one-row document with the key cell \<open>UUT: Result\<close>: the
  colon inside the key is removed as well.
\<close>

theorem trailing_colon_only_counterexample:
  "find_all ''td'' (sample_row (''UUT: Result'', ''Passed''))
     = [Tag ''td'' [Text ''UUT: Result''], Tag ''td'' [Text ''Passed'']]
   \<and> strip_trailing_colon (py_strip ''UUT: Result'') = ''UUT: Result''
   \<and> extract_fields (sample_soup [(''UUT: Result'', ''Passed'')]) ''UUT: Result'' = None
   \<and> extract_fields (sample_soup [(''UUT: Result'', ''Passed'')]) ''UUT Result'' = Some ''Passed''"
  by code_simp

subsection \<open>Date and time\<close>

text \<open>
  C3. The argument of \<open>strptime\<close> at line 101 is, for every Date and Time, the last
  whitespace-delimited token of Date, a space, and Time with its periods replaced by
  colons; a Date of whitespace only has no token, and line 101 raises IndexError. With
  the six required keys present, whenever the conversion produces its record,
  \<open>start_time\<close> is what \<open>strptime\<close> with the format \<open>%Y %H:%M:%S\<close> makes of that string,
  stored as parsed, with no time zone applied. And the record is produced with this
  \<open>start_time\<close> whenever line 89 gives a token that \<open>float\<close> accepts, Date has a token,
  \<open>strptime\<close> accepts the string, and the addition of line 102 succeeds.
\<close>

theorem start_time_rule:
  assumes "\<forall>f \<in> set required_fields. data f \<noteq> None"
  shows "composite_time date_str time_str
           = (if py_split date_str = [] then Inl IndexError
              else Inr (last_token date_str @ '' '' @ periods_to_colons time_str))
         \<and> (\<forall>r. snd (convert_fields data) = Inr (Some r) \<longrightarrow>
               py_split (the (data ''Date'')) \<noteq> []
               \<and> strptime (last_token (the (data ''Date'')) @ '' '' @ periods_to_colons (the (data ''Time'')))
                   = Inr (start_time r))
         \<and> (\<forall>tok x st delta en.
               execution_time_token data = Inr tok \<and> py_float tok = Inr x
               \<and> py_split (the (data ''Date'')) \<noteq> []
               \<and> strptime (last_token (the (data ''Date'')) @ '' '' @ periods_to_colons (the (data ''Time'')))
                   = Inr st
               \<and> timedelta_seconds x = Inr delta \<and> datetime_add st delta = Inr en
               \<longrightarrow> (\<exists>r. convert_fields data = ([], Inr (Some r)) \<and> start_time r = st \<and> end_time r = en))"
proof -
  obtain d t where dt: "data ''Date'' = Some d" "data ''Time'' = Some t"
    using assms by (auto simp: required_fields_def)
  have comp: "composite_time u v
                = (if py_split u = [] then Inl IndexError
                   else Inr (last_token u @ '' '' @ periods_to_colons v))" for u v
    by (simp add: composite_time_def index_last_def py_split_last py_replace_char periods_to_colons_def)
  have fwd: "py_split d \<noteq> [] \<and> strptime (last_token d @ '' '' @ periods_to_colons t) = Inr (start_time r)"
    if sr: "snd (convert_fields data) = Inr (Some r)" for r
  proof -
    obtain c where "composite_time d t = Inr c" "strptime c = Inr (start_time r)"
      using convert_fields_SomeD [OF sr] dt by (auto simp: dict_get_def)
    then show ?thesis unfolding comp by (auto split: if_splits)
  qed
  have bwd: "\<exists>r. convert_fields data = ([], Inr (Some r)) \<and> start_time r = st \<and> end_time r = en"
    if "execution_time_token data = Inr tok" "py_float tok = Inr x" "py_split d \<noteq> []"
      "strptime (last_token d @ '' '' @ periods_to_colons t) = Inr st"
      "timedelta_seconds x = Inr delta" "datetime_add st delta = Inr en"
    for tok x st delta en
  proof -
    have fm: "first_missing data required_fields = None"
      using assms by (simp add: first_missing_None)
    have c: "composite_time d t = Inr (last_token d @ '' '' @ periods_to_colons t)"
      using that(3) by (simp add: comp)
    show ?thesis
      using that fm dt c by (simp add: convert_fields_def parse_block_def Let_def dict_get_def)
  qed
  show ?thesis
    using comp fwd bwd dt by simp
qed

text \<open>The sample dictionary with Date \<open>Friday 2024\<close>, Time \<open>13.05.00\<close> and Execution Time
  \<open>45 seconds\<close>: the string is \<open>2024 13:05:00\<close>, and the record of the conversion starts
  at 1 January 2024, 13:05:00.\<close>

theorem start_time_rule_witness:
  "convert_fields (sample_fields ''Friday 2024'' ''13.05.00'' (Some ''45 seconds''))
     = ([], Inr (Some \<lparr>station_id = ''S1'', serial_number = ''SN42'', sequence_name = ''FCT'',
          execution_time = Finite 45, status = ''PASS'',
          start_time = \<lparr>year = 2024, month = 1, day = 1, hour = 13, minute = 5, second = 0, microsecond = 0\<rparr>,
          end_time = \<lparr>year = 2024, month = 1, day = 1, hour = 13, minute = 5, second = 45, microsecond = 0\<rparr>\<rparr>))
   \<and> composite_time ''Friday 2024'' ''13.05.00''
       = Inr (last_token ''Friday 2024'' @ '' '' @ periods_to_colons ''13.05.00'')
   \<and> last_token ''Friday 2024'' @ '' '' @ periods_to_colons ''13.05.00'' = ''2024 13:05:00''
   \<and> strptime (last_token ''Friday 2024'' @ '' '' @ periods_to_colons ''13.05.00'')
       = Inr \<lparr>year = 2024, month = 1, day = 1, hour = 13, minute = 5, second = 0, microsecond = 0\<rparr>"
proof -
  let ?data = "sample_fields ''Friday 2024'' ''13.05.00'' (Some ''45 seconds'')"
  let ?st = "\<lparr>year = 2024, month = 1, day = 1, hour = 13, minute = 5, second = 0, microsecond = 0\<rparr>"
  let ?r = "\<lparr>station_id = ''S1'', serial_number = ''SN42'', sequence_name = ''FCT'',
             execution_time = Finite 45, status = ''PASS'', start_time = ?st,
             end_time = \<lparr>year = 2024, month = 1, day = 1, hour = 13, minute = 5, second = 45, microsecond = 0\<rparr>\<rparr>"
  have h: "\<forall>f \<in> set required_fields. ?data f \<noteq> None"
    by (simp add: required_fields_def sample_fields_def sample_entries_def)
  have d: "the (?data ''Date'') = ''Friday 2024''" "the (?data ''Time'') = ''13.05.00''"
    by (simp_all add: sample_fields_def sample_entries_def)
  have ne: "py_split ''Friday 2024'' \<noteq> []"
    by code_simp
  have s: "last_token ''Friday 2024'' @ '' '' @ periods_to_colons ''13.05.00'' = ''2024 13:05:00''"
    by code_simp
  have r: "snd (convert_fields ?data) = Inr (Some ?r)"
    by (simp add: sample_convert_45)
  note rule = start_time_rule [OF h, where date_str = "''Friday 2024''" and time_str = "''13.05.00''",
      unfolded d]
  have c1: "composite_time ''Friday 2024'' ''13.05.00''
              = Inr (last_token ''Friday 2024'' @ '' '' @ periods_to_colons ''13.05.00'')"
    using rule [THEN conjunct1] ne by (simp only: if_False)
  have "strptime (last_token ''Friday 2024'' @ '' '' @ periods_to_colons ''13.05.00'') = Inr (start_time ?r)"
    using rule [THEN conjunct2, THEN conjunct1, rule_format, OF r] by (rule conjunct2)
  then have c2: "strptime (last_token ''Friday 2024'' @ '' '' @ periods_to_colons ''13.05.00'') = Inr ?st"
    by (simp only: report.simps)
  show ?thesis
    using sample_convert_45 c1 s c2 by (intro conjI)
qed

text \<open>
  C2, the example of the specification, fails: for Date \<open>Friday 2024-05-01\<close> and Time
  \<open>13.05.00\<close> the composite string is \<open>2024-05-01 13:05:00\<close>, and \<open>strptime\<close> rejects it
  (after the four digits of \<open>%Y\<close> the format wants whitespace).
\<close>

theorem spec_example_counterexample:
  "composite_time ''Friday 2024-05-01'' ''13.05.00'' = Inr ''2024-05-01 13:05:00''
   \<and> strptime ''2024-05-01 13:05:00'' = Inl ValueError"
  using composite_bad strptime_bad by simp

text \<open>
  C2, as the code has it: the example ends in a logged parse error and None (exit code
  3). With a Date whose last token is the year alone, \<open>Friday 2024\<close>, the composite
  \<open>2024 13:05:00\<close> parses to 1 January 2024, 13:05:00, and \<open>end_time\<close> is 45 seconds
  later.
\<close>

theorem spec_example_amended:
  "convert_fields (sample_fields ''Friday 2024-05-01'' ''13.05.00'' (Some ''45 seconds''))
     = ([ParseError], Inr None)
   \<and> exit_value PARSE_XML_ERROR = 3
   \<and> composite_time ''Friday 2024'' ''13.05.00'' = Inr ''2024 13:05:00''
   \<and> convert_fields (sample_fields ''Friday 2024'' ''13.05.00'' (Some ''45 seconds''))
     = ([], Inr (Some \<lparr>station_id = ''S1'', serial_number = ''SN42'', sequence_name = ''FCT'',
          execution_time = Finite 45, status = ''PASS'',
          start_time = \<lparr>year = 2024, month = 1, day = 1, hour = 13, minute = 5, second = 0, microsecond = 0\<rparr>,
          end_time = \<lparr>year = 2024, month = 1, day = 1, hour = 13, minute = 5, second = 45, microsecond = 0\<rparr>\<rparr>))
   \<and> timedelta_seconds (Finite 45) = Inr \<lparr>td_days = 0, td_seconds = 45, td_microseconds = 0\<rparr>"
  using sample_convert_bad composite_2024 sample_convert_45 timedelta_45 by simp

text \<open>
  C8. With the six required keys present and no Execution Time key, line 89 takes the
  token \<open>0\<close> of the default \<open>0 seconds\<close>, \<open>float\<close> makes 0.0 of it, and whenever the
  conversion produces its record, \<open>execution_time\<close> is 0.0 and \<open>end_time\<close> equals
  \<open>start_time\<close>.
\<close>

theorem default_execution_time:
  assumes "\<forall>f \<in> set required_fields. data f \<noteq> None"
    and "data ''Execution Time'' = None"
  shows "execution_time_token data = Inr ''0'' \<and> py_float ''0'' = Inr (Finite 0)
         \<and> (\<forall>r. snd (convert_fields data) = Inr (Some r) \<longrightarrow>
               execution_time r = Finite 0 \<and> end_time r = start_time r)"
proof -
  have tok: "execution_time_token data = Inr ''0''"
    using assms(2) by (simp add: execution_time_token_def dict_get_def token_default)
  have "execution_time r = Finite 0 \<and> end_time r = start_time r"
    if r: "snd (convert_fields data) = Inr (Some r)" for r
  proof -
    obtain comp delta where c: "strptime comp = Inr (start_time r)"
      and x: "execution_time r = Finite 0" "timedelta_seconds (Finite 0) = Inr delta"
      and e: "datetime_add (start_time r) delta = Inr (end_time r)"
      using convert_fields_SomeD [OF r] tok py_float_0 by auto
    have "delta = \<lparr>td_days = 0, td_seconds = 0, td_microseconds = 0\<rparr>"
      using x(2) by (simp add: timedelta_0)
    moreover have "field_ranges (start_time r)" "month (start_time r) = 1" "day (start_time r) = 1"
      using strptime_ranges [OF c] by simp_all
    ultimately show ?thesis
      using e x(1) datetime_add_zero [of "start_time r"] by simp
  qed
  then show ?thesis using tok py_float_0 by blast
qed

text \<open>The sample dictionary without Execution Time: the record exists.\<close>

theorem default_execution_time_witness:
  "execution_time_token (sample_fields ''Friday 2024'' ''13.05.00'' None) = Inr ''0''
   \<and> (\<exists>r. snd (convert_fields (sample_fields ''Friday 2024'' ''13.05.00'' None)) = Inr (Some r)
          \<and> execution_time r = Finite 0 \<and> end_time r = start_time r)"
proof -
  let ?data = "sample_fields ''Friday 2024'' ''13.05.00'' None"
  have h1: "\<forall>f \<in> set required_fields. ?data f \<noteq> None"
    by (simp add: required_fields_def sample_fields_def sample_entries_def)
  have h2: "?data ''Execution Time'' = None"
    by (simp add: sample_fields_def sample_entries_def)
  obtain r where r: "snd (convert_fields ?data) = Inr (Some r)"
    by (simp add: sample_convert_default)
  from default_execution_time [OF h1 h2] r
  have "execution_time_token ?data = Inr ''0''" "execution_time r = Finite 0 \<and> end_time r = start_time r"
    by blast+
  with r show ?thesis by blast
qed

subsection \<open>The XML document\<close>

text \<open>
  C9. For every record that the validation and transformation produce, the element tree
  has the root \<open>UGSTesterCom\<close> with the five fixed attributes and the nine children in
  the fixed order: Barcode is the serial number, TesterName, StationName and Station are
  the station id, TestProgram is the sequence name, Status, StartTime and EndTime are as
  computed, and TestSteps has neither text nor children. StartTime and EndTime have the
  form \<open>YYYY-MM-DDTHH:MM:SS\<close>, with six digits of microseconds after a point when these
  are not zero, and no offset.
\<close>

theorem xml_document_shape:
  assumes "snd (convert_fields data) = Inr (Some r)"
  shows "build_xml r =
           Element ''UGSTesterCom''
             [(''xmlns:xsi'', ''http://www.w3.org/2001/XMLSchema-instance''),
              (''xmlns:xsd'', ''http://www.w3.org/2001/XMLSchema''),
              (''Version'', ''2.0''), (''TesterType'', ''KONE FCT''), (''Testerlocation'', ''en-US'')]
             None
             [Element ''Barcode'' [] (Some (serial_number r)) [],
              Element ''TesterName'' [] (Some (station_id r)) [],
              Element ''StationName'' [] (Some (station_id r)) [],
              Element ''Station'' [] (Some (station_id r)) [],
              Element ''TestProgram'' [] (Some (sequence_name r)) [],
              Element ''Status'' [] (Some (status r)) [],
              Element ''StartTime'' [] (Some (isoformat (start_time r))) [],
              Element ''EndTime'' [] (Some (isoformat (end_time r))) [],
              Element ''TestSteps'' [] None []]
         \<and> iso8601_naive (isoformat (start_time r)) \<and> iso8601_naive (isoformat (end_time r))
         \<and> serial_number r = dict_get data ''Serial Number'' []
         \<and> station_id r = dict_get data ''Station ID'' []
         \<and> sequence_name r = dict_get data ''Sequence Name'' []"
proof -
  obtain comp delta where c: "strptime comp = Inr (start_time r)"
    and e: "datetime_add (start_time r) delta = Inr (end_time r)"
    and f: "serial_number r = dict_get data ''Serial Number'' []"
      "station_id r = dict_get data ''Station ID'' []"
      "sequence_name r = dict_get data ''Sequence Name'' []"
    using convert_fields_SomeD [OF assms] by auto
  have s: "field_ranges (start_time r)" using strptime_ranges [OF c] by simp
  then have "field_ranges (end_time r)" using e by (rule datetime_add_ranges)
  then show ?thesis
    using s f by (simp add: build_xml_def SubElement_def root_attributes_def isoformat_iso8601)
qed

text \<open>The sample dictionary without Execution Time, and its document.\<close>

theorem xml_document_shape_witness:
  "\<exists>r. snd (convert_fields (sample_fields ''Friday 2024'' ''13.05.00'' None)) = Inr (Some r)
      \<and> build_xml r =
           Element ''UGSTesterCom''
             [(''xmlns:xsi'', ''http://www.w3.org/2001/XMLSchema-instance''),
              (''xmlns:xsd'', ''http://www.w3.org/2001/XMLSchema''),
              (''Version'', ''2.0''), (''TesterType'', ''KONE FCT''), (''Testerlocation'', ''en-US'')]
             None
             [Element ''Barcode'' [] (Some ''SN42'') [],
              Element ''TesterName'' [] (Some ''S1'') [],
              Element ''StationName'' [] (Some ''S1'') [],
              Element ''Station'' [] (Some ''S1'') [],
              Element ''TestProgram'' [] (Some ''FCT'') [],
              Element ''Status'' [] (Some ''PASS'') [],
              Element ''StartTime'' [] (Some ''2024-01-01T13:05:00'') [],
              Element ''EndTime'' [] (Some ''2024-01-01T13:05:00'') [],
              Element ''TestSteps'' [] None []]
      \<and> iso8601_naive ''2024-01-01T13:05:00''"
proof -
  let ?r = "\<lparr>station_id = ''S1'', serial_number = ''SN42'', sequence_name = ''FCT'',
          execution_time = Finite 0, status = ''PASS'',
          start_time = \<lparr>year = 2024, month = 1, day = 1, hour = 13, minute = 5, second = 0, microsecond = 0\<rparr>,
          end_time = \<lparr>year = 2024, month = 1, day = 1, hour = 13, minute = 5, second = 0, microsecond = 0\<rparr>\<rparr>"
  have h: "snd (convert_fields (sample_fields ''Friday 2024'' ''13.05.00'' None)) = Inr (Some ?r)"
    by (simp add: sample_convert_default)
  note t = xml_document_shape [OF h]
  have b: "build_xml ?r =
           Element ''UGSTesterCom''
             [(''xmlns:xsi'', ''http://www.w3.org/2001/XMLSchema-instance''),
              (''xmlns:xsd'', ''http://www.w3.org/2001/XMLSchema''),
              (''Version'', ''2.0''), (''TesterType'', ''KONE FCT''), (''Testerlocation'', ''en-US'')]
             None
             [Element ''Barcode'' [] (Some ''SN42'') [],
              Element ''TesterName'' [] (Some ''S1'') [],
              Element ''StationName'' [] (Some ''S1'') [],
              Element ''Station'' [] (Some ''S1'') [],
              Element ''TestProgram'' [] (Some ''FCT'') [],
              Element ''Status'' [] (Some ''PASS'') [],
              Element ''StartTime'' [] (Some ''2024-01-01T13:05:00'') [],
              Element ''EndTime'' [] (Some ''2024-01-01T13:05:00'') [],
              Element ''TestSteps'' [] None []]"
    using t [THEN conjunct1] by (simp add: isoformat_2024)
  have i: "iso8601_naive ''2024-01-01T13:05:00''"
    using t [THEN conjunct2, THEN conjunct1] by (simp add: isoformat_2024)
  show ?thesis
    using h b i by blast
qed

subsection \<open>Validation\<close>

text \<open>
  C7 at its failing input. The dictionary holds only an empty Execution Time, so all six
  required keys are missing and Station ID is the first of them; line 89 raises
  IndexError before the loop of lines 92-95 is reached, and the run ends with the
  exception instead of exit code 3.
\<close>

theorem missing_field_not_reported:
  "first_missing [''Execution Time'' \<mapsto> []] required_fields = Some ''Station ID''
   \<and> convert_fields [''Execution Time'' \<mapsto> []] = ([], Inl IndexError)
   \<and> convert_fields (extract_fields (sample_soup [(''Execution Time:'', [])])) = ([], Inl IndexError)
   \<and> fst (main (sample_lib (sample_soup [(''Execution Time:'', [])])) sample_args
             (sample_world no_faults)) = Raised IndexError"
  by code_simp

text \<open>Where line 89 finds a token, the first missing key of the fixed order is the one
  reported, and the conversion returns None.\<close>

lemma missing_field_reported:
  assumes "execution_time_token data = Inr tok" and "first_missing data required_fields = Some f"
  shows "convert_fields data = ([MissingField f], Inr None)"
  using assms by (simp add: convert_fields_def)

subsection \<open>Uncaught exceptions of the conversion\<close>

text \<open>
  C10. With all six required keys present, the conversion can still leave through an
  IndexError, which no \<open>except\<close> clause of \<open>html_to_xml\<close> or \<open>main\<close> catches: for a Date
  that is empty (no last token, line 101), and for an Execution Time that is empty or
  only whitespace (no first token, line 89). Such a run ends with the exception, not
  with one of the exit codes; the exception is outside ValueError and KeyError, the two
  that become a returned None.
\<close>

theorem conversion_raises_IndexError:
  "first_missing (sample_fields [] ''13.05.00'' None) required_fields = None
   \<and> convert_fields (sample_fields [] ''13.05.00'' None) = ([], Inl IndexError)
   \<and> first_missing (sample_fields ''Friday 2024'' ''13.05.00'' (Some [])) required_fields = None
   \<and> convert_fields (sample_fields ''Friday 2024'' ''13.05.00'' (Some [])) = ([], Inl IndexError)
   \<and> convert_fields (sample_fields ''Friday 2024'' ''13.05.00'' (Some ''  '')) = ([], Inl IndexError)
   \<and> fst (main (sample_lib (sample_soup (sample_entries [] ''13.05.00'' None))) sample_args
             (sample_world no_faults)) = Raised IndexError
   \<and> fst (main (sample_lib (sample_soup (sample_entries ''Friday 2024'' ''13.05.00'' (Some []))))
             sample_args (sample_world no_faults)) = Raised IndexError"
  by code_simp

subsection \<open>The archive directory\<close>

text \<open>
  C5, as the code has it. When \<open>-a\<close> is left out, the archive directory is \<open>arhiiv\<close>
  joined to \<open>dirname(dirname(dir1))\<close>: for a source \<open>base/d/f\<close> it is \<open>base/arhiiv\<close>, in
  the parent of the source file's directory \<open>base/d\<close> and so a sibling of that
  directory, one level up from it and not two.
\<close>

theorem default_archive_directory:
  assumes "archive a = None"
    and "dir1 a = base @ ''/'' @ d @ ''/'' @ f"
    and "base \<noteq> []" "last base \<noteq> CHR ''/''"
    and "d \<noteq> []" "CHR ''/'' \<notin> set d" "CHR ''/'' \<notin> set f"
  shows "archive_dir_of a = join (dirname (dirname (dir1 a))) dir_for_archiv
         \<and> dirname (dir1 a) = base @ ''/'' @ d
         \<and> archive_dir_of a = base @ ''/'' @ ''arhiiv''
         \<and> dirname (archive_dir_of a) = dirname (dirname (dir1 a))"
proof -
  have l: "last d \<noteq> CHR ''/''" using assms(5,6) last_in_set by metis
  have d1: "dirname (dir1 a) = base @ ''/'' @ d"
    using dirname_append [of f "base @ ''/'' @ d"] assms(2,5,7) l by simp
  have d2: "dirname (base @ ''/'' @ d) = base"
    by (rule dirname_append) (use assms(3,4,6) in simp_all)
  have j: "join base ''arhiiv'' = base @ ''/'' @ ''arhiiv''"
    using assms(3,4) by (simp add: join_def)
  have d3: "dirname (base @ ''/'' @ ''arhiiv'') = base"
    by (rule dirname_append) (use assms(3,4) in simp_all)
  show ?thesis
    using assms(1) d1 d2 j d3 by (simp add: archive_dir_of_def dir_for_archiv_def)
qed

text \<open>The sample run, on \<open>/data/station/in/report.html\<close>.\<close>

theorem default_archive_directory_witness:
  "dirname (dir1 sample_args) = ''/data/station/in''
   \<and> archive_dir_of sample_args = ''/data/station/arhiiv''
   \<and> dirname (archive_dir_of sample_args) = dirname (dirname (dir1 sample_args))"
proof -
  have h: "archive sample_args = None"
    "dir1 sample_args = ''/data/station'' @ ''/'' @ ''in'' @ ''/'' @ ''report.html''"
    "''/data/station'' \<noteq> []" "last ''/data/station'' \<noteq> CHR ''/''"
    "''in'' \<noteq> []" "CHR ''/'' \<notin> set ''in''" "CHR ''/'' \<notin> set ''report.html''"
    by (simp_all add: sample_args_def)
  show ?thesis
    by (rule default_archive_directory [OF h, THEN conjunct2, unfolded append_Cons append_Nil])
qed

text \<open>
  C5 as the specification words it puts the directory two levels above the source
  file's directory, beside the parent of that directory: \<open>/data/arhiiv\<close> for the sample
  run. The code computes \<open>/data/station/arhiiv\<close>.
\<close>

theorem default_archive_directory_counterexample:
  "archive sample_args = None
   \<and> dirname (dir1 sample_args) = ''/data/station/in''
   \<and> archive_dir_of sample_args = ''/data/station/arhiiv''
   \<and> spec_archive_dir (dir1 sample_args) = ''/data/arhiiv''"
  by code_simp




subsection \<open>The order of the stages\<close>

text \<open>
  C6, as the code has it. The output directory is made first, before the source is
  read: where it is absent, \<open>os.makedirs\<close> creates it and every missing directory above
  it. A run that ends with READ_HTML_ERROR, PARSE_XML_ERROR or WRITE_XML_ERROR (the
  reader, the extraction and validation, or the writer failed) has run no later stage:
  its file system is the initial one where the output directory was there, and the one
  that \<open>os.makedirs\<close> left otherwise. So every path holds what it held before or is a new
  directory: no XML file is written, and nothing is archived.
\<close>

theorem failure_short_circuits:
  assumes "fst (main lib a w) \<in> {Returned READ_HTML_ERROR, Returned PARSE_XML_ERROR, Returned WRITE_XML_ERROR}"
  shows "fs (snd (main lib a w))
           = (if exists w (dir2 a) then fs w else fs (snd (makedirs (dir2 a) w)))
         \<and> (\<forall>p. fs (snd (main lib a w)) p = fs w p
                \<or> (fs w p = None \<and> fs (snd (main lib a w)) p = Some Dir))"
proof (cases "exists w (dir2 a)")
  case True
  then show ?thesis using assms main_convert_frame [of lib a w] by (simp add: main_def)
next
  case absent: False
  obtain r w' where mk: "makedirs (dir2 a) w = (r, w')" by (cases "makedirs (dir2 a) w")
  show ?thesis
  proof (cases r)
    case (Some x)
    then show ?thesis using assms absent mk by (auto simp: main_def split: if_splits)
  next
    case None
    have e: "main lib a w = main_convert lib a (logging (CreatedDirectory (dir2 a)) w')"
      using None absent mk by (simp add: main_def)
    have "fs (snd (main lib a w)) = fs w'"
      using assms main_convert_frame [of lib a "logging (CreatedDirectory (dir2 a)) w'"]
      unfolding e by simp
    moreover have "\<forall>q. fs w' q = fs w q \<or> (fs w q = None \<and> fs w' q = Some Dir)"
      using makedirs_world [OF mk] by blast
    ultimately show ?thesis using absent mk by simp
  qed
qed

text \<open>The sample run on a file system with the root directory only: the source is
  missing, and \<open>/data\<close> and \<open>/data/out\<close> are the new directories.\<close>

theorem failure_short_circuits_witness:
  "fst (main good_lib sample_args bare_world) = Returned READ_HTML_ERROR
   \<and> fs (snd (main good_lib sample_args bare_world))
       = [''/'' \<mapsto> Dir, ''/data'' \<mapsto> Dir, ''/data/out'' \<mapsto> Dir]
   \<and> fs (snd (main good_lib sample_args bare_world)) ''/data/out/report.xml'' = None"
proof -
  have h: "fst (main good_lib sample_args bare_world) = Returned READ_HTML_ERROR"
    by code_simp
  then have "fst (main good_lib sample_args bare_world)
      \<in> {Returned READ_HTML_ERROR, Returned PARSE_XML_ERROR, Returned WRITE_XML_ERROR}"
    by simp
  from failure_short_circuits [OF this, THEN conjunct1]
  have "fs (snd (main good_lib sample_args bare_world))
          = [''/'' \<mapsto> Dir, ''/data'' \<mapsto> Dir, ''/data/out'' \<mapsto> Dir]"
    by (simp add: sample_args_def makedirs_bare) (simp add: bare_world_def exists_def)
  then show ?thesis using h by simp
qed

text \<open>
  C6 as the specification words it says that no output directory is created when the
  Input Reader fails. On the file system with the root directory only the source is
  missing, the run ends with READ_HTML_ERROR, and the output directory and the
  directory above it exist afterwards.
\<close>

theorem output_directory_counterexample:
  "fs bare_world (dir1 sample_args) = None
   \<and> fs bare_world (dir2 sample_args) = None
   \<and> fst (main good_lib sample_args bare_world) = Returned READ_HTML_ERROR
   \<and> fs (snd (main good_lib sample_args bare_world)) (dir2 sample_args) = Some Dir
   \<and> fs (snd (main good_lib sample_args bare_world)) ''/data'' = Some Dir"
  by code_simp

end
